theory Spec2Isabelle
  imports Complex_Main "HOL-Library.Word"
begin

unbundle bit_operations_syntax

section \<open>Panics, errors and results\<close>

text \<open>
  A Go function ends in one of three ways: it panics, it returns an error
  (an \<^verbatim>\<open>error\<close> or an \<^verbatim>\<open>errhand.VerboseError\<close>), or it returns its value. The type \<open>'e\<close>
  stands for the error values of the libraries.
\<close>

datatype 'e panicValue =
    PanicMsg string \<comment> \<open>\<^verbatim>\<open>panic("...")\<close>\<close>
  | PanicErr 'e \<comment> \<open>\<^verbatim>\<open>panic(err)\<close>\<close>
  | NilDereference \<comment> \<open>a method call on a nil interface or pointer\<close>

datatype ('p, 'x, 'a) result = Panic 'p | Error 'x | Ok 'a

text \<open>Sequencing: the first panic or error ends the function.\<close>

fun thenR :: "('p, 'x, 'a) result \<Rightarrow> ('a \<Rightarrow> ('p, 'x, 'b) result) \<Rightarrow> ('p, 'x, 'b) result" where
  "thenR (Panic p) f = Panic p"
| "thenR (Error x) f = Error x"
| "thenR (Ok a) f = f a"

text \<open>
  \<^verbatim>\<open>errhand.BuildDError(format, args...)\<close> with its optional \<^verbatim>\<open>AddCause\<close>,
  \<^verbatim>\<open>AddDetails\<close> and \<^verbatim>\<open>SetPrintUsage\<close>, kept as the data the builder was given.
\<close>

datatype 'e fmtArg = ArgString string | ArgErrorText 'e

record 'e VerboseError =
  format :: string
  args :: "'e fmtArg list"
  cause :: "'e option"
  details :: "string list"
  printUsage :: bool

definition BuildDError :: "string \<Rightarrow> 'e fmtArg list \<Rightarrow> 'e VerboseError" where
  "BuildDError fmt as = \<lparr>format = fmt, args = as, cause = None, details = [], printUsage = False\<rparr>"

definition AddCause :: "'e VerboseError \<Rightarrow> 'e \<Rightarrow> 'e VerboseError" where
  "AddCause v err = v\<lparr>cause := Some err\<rparr>"

definition AddDetails :: "'e VerboseError \<Rightarrow> string \<Rightarrow> 'e VerboseError" where
  "AddDetails v d = v\<lparr>details := details v @ [d]\<rparr>"

definition SetPrintUsage :: "'e VerboseError \<Rightarrow> 'e VerboseError" where
  "SetPrintUsage v = v\<lparr>printUsage := True\<rparr>"

section \<open>Summary aggregation (cmd/dolt/commands/diff.go)\<close>

subsection \<open>The accumulator\<close>

text \<open>
  \<^verbatim>\<open>diff.DiffSummaryProgress\<close>: six \<^verbatim>\<open>uint64\<close> counters. Go's \<^verbatim>\<open>+\<close> and \<^verbatim>\<open>-\<close> on
  \<^verbatim>\<open>uint64\<close> wrap modulo \<open>2 ^ 64\<close>, which is the arithmetic of \<^typ>\<open>64 word\<close>.
\<close>

type_synonym uint64 = "64 word"

record DiffSummaryProgress =
  Adds :: uint64
  Removes :: uint64
  Changes :: uint64
  CellChanges :: uint64
  NewSize :: uint64
  OldSize :: uint64

definition emptyProgress :: DiffSummaryProgress where
  "emptyProgress =
     \<lparr>Adds = 0, Removes = 0, Changes = 0, CellChanges = 0, NewSize = 0, OldSize = 0\<rparr>"

text \<open>The body of the receive loop of \<^verbatim>\<open>diffSummary\<close>: six \<^verbatim>\<open>+=\<close>.\<close>

definition accumulate :: "DiffSummaryProgress \<Rightarrow> DiffSummaryProgress \<Rightarrow> DiffSummaryProgress" where
  "accumulate acc p =
     \<lparr>Adds = Adds acc + Adds p,
      Removes = Removes acc + Removes p,
      Changes = Changes acc + Changes p,
      CellChanges = CellChanges acc + CellChanges p,
      NewSize = NewSize acc + NewSize p,
      OldSize = OldSize acc + OldSize p\<rparr>"

subsection \<open>Go's \<^verbatim>\<open>float64\<close>\<close>

text \<open>
  An IEEE 754 binary64 value: a finite rational (\<open>Fin 0\<close> is \<open>+0\<close>), \<open>-0\<close>, the two
  infinities, or NaN. Arithmetic computes the exact rational result and rounds it to the
  nearest representable value, ties to even, as Go does.
\<close>

datatype f64 = Fin rat | NegZero | PInf | NInf | NaN

text \<open>Number of binary digits of a positive integer.\<close>

function bitlen :: "int \<Rightarrow> int" where
  "bitlen n = (if n \<le> 0 then 0 else 1 + bitlen (n div 2))"
  by pat_completeness auto
termination
  by (relation "measure nat") auto

declare bitlen.simps [simp del]

text \<open>\<open>\<lfloor>log\<^sub>2 a\<rfloor>\<close> for a positive rational \<open>a\<close>.\<close>

definition ilog2 :: "rat \<Rightarrow> int" where
  "ilog2 a = (if 1 \<le> a then bitlen \<lfloor>a\<rfloor> - 1 else - bitlen (\<lceil>1 / a\<rceil> - 1))"

definition pow2 :: "int \<Rightarrow> rat" where
  "pow2 e = (if 0 \<le> e then 2 ^ nat e else 1 / 2 ^ nat (- e))"

definition round_half_even :: "rat \<Rightarrow> int" where
  "round_half_even x =
     (let f = \<lfloor>x\<rfloor>; d = x - of_int f
      in if d < 1 / 2 then f else if 1 / 2 < d then f + 1
         else if even f then f else f + 1)"

text \<open>
  Rounding an exact value to binary64: a 53-bit significand, exponents down to the
  subnormal spacing \<open>2\<^sup>-\<^sup>1\<^sup>0\<^sup>7\<^sup>4\<close>, overflow to an infinity from \<open>2\<^sup>1\<^sup>0\<^sup>2\<^sup>4\<close> on.
\<close>

definition round_f64 :: "rat \<Rightarrow> f64" where
  "round_f64 q =
     (if q = 0 then Fin 0
      else let a = \<bar>q\<bar>;
               e = max (ilog2 a - 52) (- 1074);
               m = round_half_even (a / pow2 e);
               r = of_int m * pow2 e
           in if pow2 1024 \<le> r then (if q < 0 then NInf else PInf)
              else if m = 0 then (if q < 0 then NegZero else Fin 0)
              else Fin (if q < 0 then - r else r))"

fun f64_neg :: "f64 \<Rightarrow> bool" where
  "f64_neg (Fin q) = (q < 0)"
| "f64_neg NegZero = True"
| "f64_neg PInf = False"
| "f64_neg NInf = True"
| "f64_neg NaN = False"

fun f64_is_zero :: "f64 \<Rightarrow> bool" where
  "f64_is_zero (Fin q) = (q = 0)"
| "f64_is_zero NegZero = True"
| "f64_is_zero _ = False"

fun f64_is_inf :: "f64 \<Rightarrow> bool" where
  "f64_is_inf PInf = True"
| "f64_is_inf NInf = True"
| "f64_is_inf _ = False"

fun f64_val :: "f64 \<Rightarrow> rat" where
  "f64_val (Fin q) = q"
| "f64_val _ = 0"

definition f64_inf :: "bool \<Rightarrow> f64" where
  "f64_inf neg = (if neg then NInf else PInf)"

definition f64_zero :: "bool \<Rightarrow> f64" where
  "f64_zero neg = (if neg then NegZero else Fin 0)"

text \<open>Go's \<^verbatim>\<open>/\<close> on \<^verbatim>\<open>float64\<close>: \<open>0/0\<close> and \<open>\<infinity>/\<infinity>\<close> are NaN, \<open>x/0\<close> is an infinity.\<close>

definition f64_div :: "f64 \<Rightarrow> f64 \<Rightarrow> f64" where
  "f64_div x y =
     (if x = NaN \<or> y = NaN then NaN
      else if (f64_is_zero x \<and> f64_is_zero y) \<or> (f64_is_inf x \<and> f64_is_inf y) then NaN
      else if f64_is_inf x \<or> f64_is_zero y then f64_inf (f64_neg x \<noteq> f64_neg y)
      else if f64_is_zero x \<or> f64_is_inf y then f64_zero (f64_neg x \<noteq> f64_neg y)
      else round_f64 (f64_val x / f64_val y))"

text \<open>Go's \<^verbatim>\<open>*\<close> on \<^verbatim>\<open>float64\<close>: \<open>0 * \<infinity>\<close> is NaN.\<close>

definition f64_mul :: "f64 \<Rightarrow> f64 \<Rightarrow> f64" where
  "f64_mul x y =
     (if x = NaN \<or> y = NaN then NaN
      else if (f64_is_zero x \<and> f64_is_inf y) \<or> (f64_is_inf x \<and> f64_is_zero y) then NaN
      else if f64_is_inf x \<or> f64_is_inf y then f64_inf (f64_neg x \<noteq> f64_neg y)
      else if f64_is_zero x \<or> f64_is_zero y then f64_zero (f64_neg x \<noteq> f64_neg y)
      else round_f64 (f64_val x * f64_val y))"

text \<open>The conversions \<^verbatim>\<open>float64(u)\<close> of a \<^verbatim>\<open>uint64\<close> and \<^verbatim>\<open>float64(i)\<close> of an \<^verbatim>\<open>int\<close>.\<close>

definition float64_of_uint64 :: "uint64 \<Rightarrow> f64" where
  "float64_of_uint64 u = round_f64 (of_int (uint u))"

definition float64_of_int :: "64 word \<Rightarrow> f64" where
  "float64_of_int i = round_f64 (of_int (sint i))"

subsection \<open>\<^verbatim>\<open>formatSummary\<close>\<close>

text \<open>
  \<^verbatim>\<open>pluralize\<close> picks the noun and hands \<^verbatim>\<open>int64(n)\<close> to \<^verbatim>\<open>humanize.Comma\<close>. The
  model keeps the two arguments of the final \<^verbatim>\<open>Sprintf\<close>: the converted count and the
  noun; the rendering of the digits is the formatting library's.
\<close>

type_synonym pluralized = "int \<times> string"

definition pluralize :: "string \<Rightarrow> string \<Rightarrow> uint64 \<Rightarrow> pluralized" where
  "pluralize singular plural n = (sint n, if n \<noteq> 1 then plural else singular)"

definition rowsUnmodified :: "DiffSummaryProgress \<Rightarrow> uint64" where
  "rowsUnmodified acc = OldSize acc - Changes acc - Removes acc"

definition percentCellsChanged :: "DiffSummaryProgress \<Rightarrow> 64 word \<Rightarrow> f64" where
  "percentCellsChanged acc colLen =
     f64_div (float64_of_uint64 (100 * CellChanges acc))
             (f64_mul (float64_of_uint64 (OldSize acc)) (float64_of_int colLen))"

definition safePercent :: "uint64 \<Rightarrow> uint64 \<Rightarrow> f64" where
  "safePercent num dom' =
     (if num = 0 then Fin 0
      else f64_div (float64_of_uint64 (100 * num)) (float64_of_uint64 dom'))"

text \<open>
  What \<^verbatim>\<open>formatSummary\<close> prints: five lines, each a pluralised count and a percentage
  (the arguments of \<^verbatim>\<open>Printf("%s (%.2f%%)\n", ...)\<close>), and the closing line with
  the two sizes.
\<close>

record summaryOutput =
  unmodified :: "pluralized \<times> f64"
  insertions :: "pluralized \<times> f64"
  deletions :: "pluralized \<times> f64"
  changes :: "pluralized \<times> f64"
  cellChanges :: "pluralized \<times> f64"
  oldValues :: pluralized
  newValues :: pluralized

definition formatSummary :: "DiffSummaryProgress \<Rightarrow> 64 word \<Rightarrow> summaryOutput" where
  "formatSummary acc colLen =
     \<lparr>unmodified = (pluralize ''Row Unmodified'' ''Rows Unmodified'' (rowsUnmodified acc),
                    safePercent (rowsUnmodified acc) (OldSize acc)),
      insertions = (pluralize ''Row Added'' ''Rows Added'' (Adds acc),
                    safePercent (Adds acc) (OldSize acc)),
      deletions = (pluralize ''Row Deleted'' ''Rows Deleted'' (Removes acc),
                   safePercent (Removes acc) (OldSize acc)),
      changes = (pluralize ''Row Modified'' ''Rows Modified'' (Changes acc),
                 safePercent (Changes acc) (OldSize acc)),
      cellChanges = (pluralize ''Cell Modified'' ''Cells Modified'' (CellChanges acc),
                     percentCellsChanged acc colLen),
      oldValues = pluralize ''Entry'' ''Entries'' (OldSize acc),
      newValues = pluralize ''Entry'' ''Entries'' (NewSize acc)\<rparr>"

subsection \<open>\<^verbatim>\<open>diffSummary\<close>\<close>

text \<open>
  The producer goroutine sends partial reports on an unbuffered channel and records its
  error in an \<^verbatim>\<open>atomicerr\<close>. The consumer sees a sequence of receives; at each one it
  first reads \<^verbatim>\<open>ae.IsSet()\<close>. A receive is modelled as the report together with what
  \<^verbatim>\<open>ae.IsSet()\<close> answered at that moment.
\<close>

type_synonym receive = "DiffSummaryProgress \<times> bool"

datatype cliOutput =
    StatusLine DiffSummaryProgress
  | ClearLine
  | SummaryLines summaryOutput
  | NoDataChanges

text \<open>Go's \<^verbatim>\<open>%\<close> on signed integers truncates towards zero.\<close>

definition go_rem :: "int \<Rightarrow> int \<Rightarrow> int" where
  "go_rem a b = sgn a * (\<bar>a\<bar> mod \<bar>b\<bar>)"

text \<open>
  The \<^verbatim>\<open>for p := range ch\<close> loop, with the accumulator, the \<^verbatim>\<open>int64\<close> counter and the
  status lines printed so far as its state. The loop ends when the channel is drained
  (the list is empty) or at the \<^verbatim>\<open>break\<close>.
\<close>

fun diffSummary_loop ::
  "receive list \<Rightarrow> DiffSummaryProgress \<times> 64 word \<times> cliOutput list
     \<Rightarrow> DiffSummaryProgress \<times> 64 word \<times> cliOutput list" where
  "diffSummary_loop [] st = st"
| "diffSummary_loop ((p, isSet) # ch) (acc, count, out) =
     (if isSet then (acc, count, out)
      else let acc' = accumulate acc p;
               out' = (if go_rem (sint count) 10000 = 0 then out @ [StatusLine acc'] else out)
           in diffSummary_loop ch (acc', count + 1, out'))"

text \<open>
  \<^verbatim>\<open>diffSummary\<close>: the receives, the column count and the error \<^verbatim>\<open>ae.Get()\<close> holds after
  the loop; the result is the returned \<^verbatim>\<open>VerboseError\<close> (or \<^verbatim>\<open>nil\<close>) and what was printed.
\<close>

definition diffSummary ::
  "receive list \<Rightarrow> 64 word \<Rightarrow> 'e option \<Rightarrow> 'e VerboseError option \<times> cliOutput list" where
  "diffSummary ch colLen aeGet =
     (case diffSummary_loop ch (emptyProgress, 0, []) of
        (acc, count, out) \<Rightarrow>
          (case aeGet of
             Some err \<Rightarrow> (Some (AddCause (BuildDError [] []) err), out @ [ClearLine])
           | None \<Rightarrow>
               if 0 < NewSize acc \<or> 0 < OldSize acc
               then (None, out @ [ClearLine, SummaryLines (formatSummary acc colLen)])
               else (None, out @ [ClearLine, NoDataChanges])))"

subsection \<open>Example accumulators and channels\<close>

text \<open>One row added to an empty table: \<^verbatim>\<open>OldSize\<close> is 0 and \<^verbatim>\<open>NewSize\<close> is 1.\<close>

definition acc_added_to_empty :: DiffSummaryProgress where
  "acc_added_to_empty =
     \<lparr>Adds = 1, Removes = 0, Changes = 0, CellChanges = 0, NewSize = 1, OldSize = 0\<rparr>"

definition acc_wrapping :: DiffSummaryProgress where
  "acc_wrapping =
     \<lparr>Adds = 0, Removes = 2, Changes = 3, CellChanges = 3, NewSize = 1, OldSize = 4\<rparr>"

definition acc_exact :: DiffSummaryProgress where
  "acc_exact =
     \<lparr>Adds = 0, Removes = 2, Changes = 3, CellChanges = 3, NewSize = 7, OldSize = 10\<rparr>"

definition ch_two_reports :: "receive list" where
  "ch_two_reports =
     [(\<lparr>Adds = 1, Removes = 0, Changes = 2, CellChanges = 5, NewSize = 3, OldSize = 2\<rparr>, False),
      (\<lparr>Adds = 0, Removes = 4, Changes = 1, CellChanges = 1, NewSize = 1, OldSize = 5\<rparr>, False)]"

section \<open>Schemas and rows (libraries/doltcore/row/row.go)\<close>

subsection \<open>Columns, schemas and rows\<close>

text \<open>
  A \<^verbatim>\<open>schema.ColConstraint\<close> is an interface; the code here calls one method of it,
  \<^verbatim>\<open>SatisfiesConstraint(value)\<close>. A \<^verbatim>\<open>types.Value\<close> is an interface value too, and Go's
  \<^verbatim>\<open>nil\<close> is \<open>None\<close>.
\<close>

type_synonym 'v ColConstraint = "'v option \<Rightarrow> bool"

definition SatisfiesConstraint :: "'v ColConstraint \<Rightarrow> 'v option \<Rightarrow> bool" where
  "SatisfiesConstraint cnst val = cnst val"

text \<open>
  Modelled from the spec: \<^verbatim>\<open>schema.Column\<close>, whose declaration is not among the sources:
  a tag, a name, a type, the primary-key flag and an ordered sequence of constraints.
  The field names are the ones \<^verbatim>\<open>diff.go\<close> and \<^verbatim>\<open>row.go\<close> use.
\<close>

record ('v, 'ty) Column =
  Name :: string
  Tag :: uint64
  TypeInfo :: 'ty
  IsPartOfPK :: bool
  Constraints :: "'v ColConstraint list"

text \<open>
  Modelled from the spec: \<^verbatim>\<open>schema.ColCollection\<close> and \<^verbatim>\<open>schema.Schema\<close>, an ordered
  collection of columns, iterable by tag; a schema is well formed when its tags are
  unique. \<^verbatim>\<open>GetAllCols\<close> gives the collection, \<^verbatim>\<open>Tags\<close> its tags in order.
\<close>

type_synonym ('v, 'ty) ColCollection = "('v, 'ty) Column list"

type_synonym ('v, 'ty) Schema = "('v, 'ty) ColCollection"

definition GetAllCols :: "('v, 'ty) Schema \<Rightarrow> ('v, 'ty) ColCollection" where
  "GetAllCols sch = sch"

definition Tags :: "('v, 'ty) ColCollection \<Rightarrow> uint64 list" where
  "Tags cc = map Tag cc"

definition Size :: "('v, 'ty) ColCollection \<Rightarrow> nat" where
  "Size cc = length cc"

definition GetByTag :: "('v, 'ty) ColCollection \<Rightarrow> uint64 \<Rightarrow> ('v, 'ty) Column option" where
  "GetByTag cc tag = find (\<lambda>col. Tag col = tag) cc"

text \<open>
  Modelled from the spec: \<^verbatim>\<open>ColCollection.Iter\<close> in the form \<^verbatim>\<open>row.go\<close> calls it, with a
  callback that answers \<^verbatim>\<open>stop\<close>. It visits the columns in order until the callback
  stops it. The callbacks of the source assign to variables of the enclosing function;
  the model threads those variables through as the state \<open>s\<close>.
\<close>

fun Iter ::
  "('v, 'ty) ColCollection \<Rightarrow> (uint64 \<Rightarrow> ('v, 'ty) Column \<Rightarrow> 's \<Rightarrow> bool \<times> 's) \<Rightarrow> 's \<Rightarrow> 's" where
  "Iter [] cb s = s"
| "Iter (col # cols) cb s =
     (case cb (Tag col) col s of (stop, s') \<Rightarrow> if stop then s' else Iter cols cb s')"

text \<open>
  A \<^verbatim>\<open>row.Row\<close> is an interface; the functions here use \<^verbatim>\<open>GetColVal\<close> only. A row is
  a sparse mapping from tags to values, and \<^verbatim>\<open>GetColVal\<close> answers \<^verbatim>\<open>(nil, false)\<close> for a
  tag the row has no value for. A \<^verbatim>\<open>nil\<close> row is \<open>None\<close> of \<open>'v Row option\<close>.
\<close>

type_synonym 'v Row = "uint64 \<Rightarrow> 'v option"

definition GetColVal :: "'v Row \<Rightarrow> uint64 \<Rightarrow> 'v option \<times> bool" where
  "GetColVal r tag = (case r tag of None \<Rightarrow> (None, False) | Some v \<Rightarrow> (Some v, True))"

subsection \<open>\<^verbatim>\<open>IsValid\<close> and \<^verbatim>\<open>GetInvalidCol\<close>\<close>

text \<open>
  The inner \<^verbatim>\<open>for _, cnst := range col.Constraints\<close> of both functions: \<open>True\<close> when it
  reaches a constraint that the value does not satisfy (where the source returns from the
  callback), \<open>False\<close> when it runs to the end.
\<close>

fun constraintViolated :: "'v ColConstraint list \<Rightarrow> 'v option \<Rightarrow> bool" where
  "constraintViolated [] val = False"
| "constraintViolated (cnst # cnsts) val =
     (if \<not> SatisfiesConstraint cnst val then True else constraintViolated cnsts val)"

definition IsValid_cb :: "'v Row \<Rightarrow> uint64 \<Rightarrow> ('v, 'ty) Column \<Rightarrow> bool \<Rightarrow> bool \<times> bool" where
  "IsValid_cb r tag col valid =
     (if 0 < length (Constraints col)
      then (let val = fst (GetColVal r tag)
            in if constraintViolated (Constraints col) val then (True, False)
               else (False, valid))
      else (False, valid))"

definition IsValid :: "'v Row \<Rightarrow> ('v, 'ty) Schema \<Rightarrow> bool" where
  "IsValid r sch = (let allCols = GetAllCols sch in Iter allCols (IsValid_cb r) True)"

definition GetInvalidCol_cb ::
  "'v Row \<Rightarrow> uint64 \<Rightarrow> ('v, 'ty) Column \<Rightarrow> ('v, 'ty) Column option
     \<Rightarrow> bool \<times> ('v, 'ty) Column option" where
  "GetInvalidCol_cb r tag col badCol =
     (if 0 < length (Constraints col)
      then (let val = fst (GetColVal r tag)
            in if constraintViolated (Constraints col) val then (True, Some col)
               else (False, badCol))
      else (False, badCol))"

definition GetInvalidCol :: "'v Row \<Rightarrow> ('v, 'ty) Schema \<Rightarrow> ('v, 'ty) Column option" where
  "GetInvalidCol r sch = (let allCols = GetAllCols sch in Iter allCols (GetInvalidCol_cb r) None)"

subsection \<open>\<^verbatim>\<open>AreEqual\<close>\<close>

text \<open>
  Modelled from the spec: \<^verbatim>\<open>valutil.NilSafeEqCheck\<close>, which is not among the sources:
  absent equals absent, two present values are equal iff their underlying equality
  holds, and an absent value never equals a present one.
\<close>

fun NilSafeEqCheck :: "'v option \<Rightarrow> 'v option \<Rightarrow> bool" where
  "NilSafeEqCheck None None = True"
| "NilSafeEqCheck (Some v1) (Some v2) = (v1 = v2)"
| "NilSafeEqCheck _ _ = False"

text \<open>The loop over \<^verbatim>\<open>sch.GetAllCols().Tags\<close>, leaving at the first unequal pair.\<close>

fun AreEqual_loop :: "uint64 list \<Rightarrow> 'v Row \<Rightarrow> 'v Row \<Rightarrow> bool" where
  "AreEqual_loop [] row1 row2 = True"
| "AreEqual_loop (tag # tags) row1 row2 =
     (let val1 = fst (GetColVal row1 tag); val2 = fst (GetColVal row2 tag)
      in if \<not> NilSafeEqCheck val1 val2 then False else AreEqual_loop tags row1 row2)"

definition AreEqual :: "'v Row option \<Rightarrow> 'v Row option \<Rightarrow> ('v, 'ty) Schema \<Rightarrow> bool" where
  "AreEqual row1 row2 sch =
     (if row1 = None \<and> row2 = None then True
      else if row1 = None \<or> row2 = None then False
      else AreEqual_loop (Tags (GetAllCols sch)) (the row1) (the row2))"

text \<open>
  The spec's reading of validity, for comparison with \<^verbatim>\<open>IsValid\<close>: every tag that is
  present in the row has a value satisfying the constraints of its column.
\<close>

definition spec_presentTagsSatisfy :: "'v Row \<Rightarrow> ('v, 'ty) Schema \<Rightarrow> bool" where
  "spec_presentTagsSatisfy r sch =
     list_all (\<lambda>col. case r (Tag col) of
                        None \<Rightarrow> True
                      | Some v \<Rightarrow> list_all (\<lambda>cnst. SatisfiesConstraint cnst (Some v)) (Constraints col))
              sch"

subsection \<open>Example schemas and rows\<close>

text \<open>A constraint in the manner of a not-null constraint: it rejects \<^verbatim>\<open>nil\<close>.\<close>

definition notNull :: "nat ColConstraint" where
  "notNull val = (val \<noteq> None)"

definition col_id :: "(nat, unit) Column" where
  "col_id = \<lparr>Name = ''id'', Tag = 0, TypeInfo = (), IsPartOfPK = True, Constraints = [notNull]\<rparr>"

definition col_name :: "(nat, unit) Column" where
  "col_name = \<lparr>Name = ''name'', Tag = 1, TypeInfo = (), IsPartOfPK = False, Constraints = []\<rparr>"

definition sch_people :: "(nat, unit) Schema" where
  "sch_people = [col_id, col_name]"

definition row_empty :: "nat Row" where
  "row_empty = (\<lambda>tag. None)"

definition row_7 :: "nat Row" where
  "row_7 = (\<lambda>tag. if tag = 0 then Some 7 else None)"

definition row_7_42 :: "nat Row" where
  "row_7_42 = (\<lambda>tag. if tag = 0 then Some 7 else if tag = 1 then Some 42 else None)"

section \<open>The diff command (cmd/dolt/commands/diff.go)\<close>

subsection \<open>The arguments of the command\<close>

text \<open>\<^verbatim>\<open>diffOutput\<close> and \<^verbatim>\<open>diffPart\<close> are named \<^verbatim>\<open>int\<close> types with these constants.\<close>

type_synonym diffOutput = "64 word"
type_synonym diffPart = "64 word"

definition SchemaOnlyDiff :: diffPart where "SchemaOnlyDiff = 1"
definition DataOnlyDiff :: diffPart where "DataOnlyDiff = 2"
definition Summary :: diffPart where "Summary = 4"
definition SchemaAndDataDiff :: diffPart where "SchemaAndDataDiff = SchemaOnlyDiff OR DataOnlyDiff"

definition TabularDiffOutput :: diffOutput where "TabularDiffOutput = 1"
definition SQLDiffOutput :: diffOutput where "SQLDiffOutput = 2"

text \<open>
  \<^verbatim>\<open>diffArgs\<close>. The \<^verbatim>\<open>*set.StrSet\<close> is kept as the list of its members; \<^verbatim>\<open>limit\<close> is a
  Go \<^verbatim>\<open>int\<close>.
\<close>

record diffArgs =
  diffParts :: diffPart
  diffOutput :: diffOutput
  tableSet :: "string list"
  limit :: "64 word"
  whereClause :: string

subsection \<open>\<^verbatim>\<open>dumbDownSchema\<close>\<close>

text \<open>
  \<^verbatim>\<open>strconv.FormatUint(tag, 10)\<close> of the Go standard library: the decimal digits of the
  number, most significant first, without leading zeros.
\<close>

definition digitChar :: "nat \<Rightarrow> char" where
  "digitChar d = ''0123456789'' ! d"

function formatDecimal :: "nat \<Rightarrow> string" where
  "formatDecimal n = (if n < 10 then [digitChar n] else formatDecimal (n div 10) @ [digitChar (n mod 10)])"
  by pat_completeness auto
termination
  by (relation "measure id") auto

declare formatDecimal.simps [simp del]

definition FormatUint_10 :: "uint64 \<Rightarrow> string" where
  "FormatUint_10 i = formatDecimal (unat i)"

text \<open>Reading a string of decimal digits back, to state what the rendering means.\<close>

definition digitValue :: "char \<Rightarrow> nat" where
  "digitValue c = of_char c - of_char CHR ''0''"

definition decimalValue :: "string \<Rightarrow> nat" where
  "decimalValue s = foldl (\<lambda>acc c. 10 * acc + digitValue c) 0 s"

text \<open>
  Modelled from the spec: \<^verbatim>\<open>ColCollection.Iter\<close> in the form \<^verbatim>\<open>diff.go\<close> calls it, with a
  callback that answers \<^verbatim>\<open>(stop, err)\<close>: the columns in order, until the callback stops
  the iteration or fails.
\<close>

fun IterE ::
  "('v, 'ty) ColCollection \<Rightarrow> (uint64 \<Rightarrow> ('v, 'ty) Column \<Rightarrow> 's \<Rightarrow> (bool \<times> 'e option) \<times> 's)
     \<Rightarrow> 's \<Rightarrow> 'e option \<times> 's" where
  "IterE [] cb s = (None, s)"
| "IterE (col # cols) cb s =
     (case cb (Tag col) col s of
        ((stop, Some err), s') \<Rightarrow> (Some err, s')
      | ((stop, None), s') \<Rightarrow> if stop then (None, s') else IterE cols cb s')"

text \<open>
  Modelled from the spec: \<^verbatim>\<open>schema.NewColCollection\<close> and \<^verbatim>\<open>schema.SchemaFromCols\<close>,
  which are not among the sources. A collection holds the given columns in the given
  order; tags are unique within a schema, and columns whose tags collide are refused
  with an error.
\<close>

definition NewColCollection :: "('v, 'ty) Column list \<Rightarrow> string + ('v, 'ty) ColCollection" where
  "NewColCollection cols =
     (if distinct (map Tag cols) then Inr cols else Inl ''two different columns with the same tag'')"

definition SchemaFromCols :: "('v, 'ty) ColCollection \<Rightarrow> ('v, 'ty) Schema" where
  "SchemaFromCols allCols = allCols"

text \<open>The callback of \<^verbatim>\<open>dumbDownSchema\<close>; its state is the slice \<^verbatim>\<open>dumbCols\<close>.\<close>

definition dumbDown_cb ::
  "uint64 \<Rightarrow> ('v, 'ty) Column \<Rightarrow> ('v, 'ty) Column list
     \<Rightarrow> (bool \<times> 'e option) \<times> ('v, 'ty) Column list" where
  "dumbDown_cb tag col dumbCols =
     ((False, None), dumbCols @ [col\<lparr>Name := FormatUint_10 tag, Constraints := []\<rparr>])"

text \<open>
  \<^verbatim>\<open>dumbDownSchema\<close>. A schema is an interface value, so the argument may be \<^verbatim>\<open>nil\<close>, and
  \<^verbatim>\<open>in.GetAllCols()\<close> panics on it. The source discards the error of
  \<^verbatim>\<open>NewColCollection\<close> and passes the collection, then \<^verbatim>\<open>nil\<close>, to \<^verbatim>\<open>SchemaFromCols\<close>;
  the model ends that path with the nil dereference.
\<close>

definition dumbDownSchema ::
  "('v, 'ty) Schema option \<Rightarrow> ('e panicValue, 'e, ('v, 'ty) Schema) result" where
  "dumbDownSchema in' =
     (case in' of
        None \<Rightarrow> Panic NilDereference
      | Some sch \<Rightarrow>
          (let allCols = GetAllCols sch
           in case IterE allCols dumbDown_cb [] of
                (Some err, dumbCols) \<Rightarrow> Error err
              | (None, dumbCols) \<Rightarrow>
                  (case NewColCollection dumbCols of
                     Inl _ \<Rightarrow> Panic NilDereference
                   | Inr dumbColColl \<Rightarrow> Ok (SchemaFromCols dumbColColl))))"

subsection \<open>Collaborators outside this file\<close>

text \<open>
  Modelled from the spec: the names of the two sides, \<^verbatim>\<open>diff.From\<close> and \<^verbatim>\<open>diff.To\<close>, whose
  declarations are not among the sources; the joiner prefixes column names with
  \<^verbatim>\<open>from_\<close> and \<^verbatim>\<open>to_\<close>.
\<close>

definition diff_From :: string where "diff_From = ''from''"
definition diff_To :: string where "diff_To = ''to''"

definition toNamer :: "string \<Rightarrow> string" where
  "toNamer name = diff_To @ ''_'' @ name"

definition fromNamer :: "string \<Rightarrow> string" where
  "fromNamer name = diff_From @ ''_'' @ name"

text \<open>
  The objects that \<^verbatim>\<open>diffRows\<close> builds through constructors of other packages are kept
  as the arguments they were built from: the joiner, the tag mappings and row
  converters, the splitter, the diff source and the two sinks. Whether a constructor
  fails is decided outside this file, see \<open>externals\<close> below.
\<close>

datatype ('v, 'ty) Joiner =
  NewJoiner "(string \<times> ('v, 'ty) Schema option) list" "(string \<times> (string \<Rightarrow> string)) list"

datatype ('v, 'ty) FieldMapping =
  TagMapping "('v, 'ty) Schema option" "('v, 'ty) Schema option"

datatype ('v, 'ty) RowConverter =
    IdentityConverter
  | NewRowConverter "('v, 'ty) FieldMapping"

datatype ('v, 'ty) DiffSplitter =
  NewDiffSplitter "('v, 'ty) Joiner" "('v, 'ty) RowConverter" "('v, 'ty) RowConverter"

datatype ('v, 'ty, 'map) RowDiffSource =
  NewRowDiffSource nat 'map 'map "('v, 'ty) Joiner"

datatype ('v, 'ty) DiffSink =
    NewColorDiffSink "('v, 'ty) Schema option" nat
  | NewSQLDiffSink "('v, 'ty) Schema option" string

text \<open>
  Modelled from the spec: the diff-type marker that a row carries as a property, and
  the name of that property (\<^verbatim>\<open>diff.DiffTypeProp\<close>). A property map
  \<^verbatim>\<open>map[string]interface{}\<close> is the list of its entries.
\<close>

datatype DiffChType = DiffAdded | DiffRemoved | DiffModifiedOld | DiffModifiedNew

datatype propName = DiffTypeProp

type_synonym props = "(propName \<times> DiffChType) list"

text \<open>
  The stages of the pipeline are named. Two of the names are string literals of this
  file; \<^verbatim>\<open>nullprinter.NullPrintingStage\<close> and \<^verbatim>\<open>fwtStageName\<close> are constants declared
  elsewhere.
\<close>

datatype stageName = StageName string | NullPrintingStage | fwtStageName

datatype ('v, 'ty) TransformFunc =
    LimitAndFilter "'v Row \<Rightarrow> bool" "64 word" \<comment> \<open>\<^verbatim>\<open>NewSelTrans(where, limit).LimitAndFilter\<close>\<close>
  | SplitDiffIntoOldAndNew "('v, 'ty) DiffSplitter"
  | NullPrinterProcessRow "('v, 'ty) Schema option"
  | TransformToFWT "('v, 'ty) Schema option"

type_synonym ('v, 'ty) NamedTransform = "stageName \<times> ('v, 'ty) TransformFunc"

text \<open>
  Modelled from the spec: the pipeline, as far as \<^verbatim>\<open>diffRows\<close> drives it. It has a
  source, a sink and named stages; \<^verbatim>\<open>InjectRow\<close> and \<^verbatim>\<open>InjectRowWithProps\<close> enqueue a row
  at the input of a named stage, first in first out; \<^verbatim>\<open>Start\<close> sets it running.
\<close>

record ('v, 'ty, 'map) Pipeline =
  source :: "('v, 'ty, 'map) RowDiffSource"
  sink :: "('v, 'ty) DiffSink"
  transforms :: "('v, 'ty) NamedTransform list"
  injected :: "(stageName \<times> 'v Row \<times> props) list"
  isRunning :: bool

definition NewAsyncPipeline ::
  "('v, 'ty, 'map) RowDiffSource \<Rightarrow> ('v, 'ty) DiffSink \<Rightarrow> ('v, 'ty) NamedTransform list
     \<Rightarrow> ('v, 'ty, 'map) Pipeline" where
  "NewAsyncPipeline src snk trs =
     \<lparr>source = src, sink = snk, transforms = trs, injected = [], isRunning = False\<rparr>"

definition InjectRowWithProps ::
  "('v, 'ty, 'map) Pipeline \<Rightarrow> stageName \<Rightarrow> 'v Row \<Rightarrow> props \<Rightarrow> ('v, 'ty, 'map) Pipeline" where
  "InjectRowWithProps p name r ps = p\<lparr>injected := injected p @ [(name, r, ps)]\<rparr>"

definition InjectRow ::
  "('v, 'ty, 'map) Pipeline \<Rightarrow> stageName \<Rightarrow> 'v Row \<Rightarrow> ('v, 'ty, 'map) Pipeline" where
  "InjectRow p name r = InjectRowWithProps p name r []"

definition Start :: "('v, 'ty, 'map) Pipeline \<Rightarrow> ('v, 'ty, 'map) Pipeline" where
  "Start p = p\<lparr>isRunning := True\<rparr>"

text \<open>What the bad-row callback receives.\<close>

record TransformRowFailure =
  TransformName :: string
  Details :: string

text \<open>
  The calls whose code is in other packages and whose outcome this file only reacts
  to: whether a constructor fails, the union of two untyped schemas, the parsed
  \<^verbatim>\<open>where\<close> clause, the header row made from tagged strings, and how a started pipeline
  ends (\<^verbatim>\<open>p.Wait()\<close> and whether the bad-row callback was called during the run).
\<close>

record ('v, 'ty, 'e, 'map) externals =
  NewJoiner_fails :: "(string \<times> ('v, 'ty) Schema option) list \<Rightarrow> 'e option"
  UntypedSchemaUnion :: "('v, 'ty) Schema \<Rightarrow> ('v, 'ty) Schema \<Rightarrow> 'e + ('v, 'ty) Schema"
  TagMapping_fails :: "('v, 'ty) Schema option \<Rightarrow> ('v, 'ty) Schema option \<Rightarrow> 'e option"
  NewColorDiffSink_fails :: "('v, 'ty) Schema option \<Rightarrow> nat \<Rightarrow> 'e option"
  NewSQLDiffSink_fails :: "('v, 'ty) Schema option \<Rightarrow> string \<Rightarrow> 'e option"
  ParseWhere :: "('v, 'ty) Joiner \<Rightarrow> string \<Rightarrow> 'e + ('v Row \<Rightarrow> bool) option"
  NewRowFromTaggedStrings ::
    "'map \<Rightarrow> ('v, 'ty) Schema option \<Rightarrow> (uint64 \<Rightarrow> string option) \<Rightarrow> 'e + 'v Row"
  Wait :: "('v, 'ty, 'map) Pipeline \<Rightarrow> 'e option"
  badRow :: "('v, 'ty, 'map) Pipeline \<Rightarrow> TransformRowFailure option"

subsection \<open>\<^verbatim>\<open>createSplitter\<close>\<close>

text \<open>The converter of one side onto the union schema; a \<^verbatim>\<open>nil\<close> schema keeps the identity.\<close>

definition toUnionConv ::
  "('v, 'ty, 'e, 'map) externals \<Rightarrow> ('v, 'ty) Schema option \<Rightarrow> ('v, 'ty) Schema option
     \<Rightarrow> ('e panicValue, 'e VerboseError, ('v, 'ty) RowConverter) result" where
  "toUnionConv ext sch unionSch =
     (if sch \<noteq> None
      then (case TagMapping_fails ext sch unionSch of
              Some err \<Rightarrow> Error (AddCause (BuildDError ''Error creating unioned mapping'' []) err)
            | None \<Rightarrow> Ok (NewRowConverter (TagMapping sch unionSch)))
      else Ok IdentityConverter)"

text \<open>The first part of \<^verbatim>\<open>createSplitter\<close>: the choice of the union schema.\<close>

definition createSplitter_unionSch ::
  "('v, 'ty, 'e, 'map) externals \<Rightarrow> ('v, 'ty) Schema option \<Rightarrow> ('v, 'ty) Schema option \<Rightarrow> diffArgs
     \<Rightarrow> ('e panicValue, 'e VerboseError, ('v, 'ty) Schema option) result" where
  "createSplitter_unionSch ext fromSch toSch dArgs =
     (if diffOutput dArgs = TabularDiffOutput
      then (case dumbDownSchema toSch of
              Panic p \<Rightarrow> Panic p
            | Error err \<Rightarrow> Error (AddCause (BuildDError [] []) err)
            | Ok dumbNewSch \<Rightarrow>
                (case dumbDownSchema fromSch of
                   Panic p \<Rightarrow> Panic p
                 | Error err \<Rightarrow> Error (AddCause (BuildDError [] []) err)
                 | Ok dumbOldSch \<Rightarrow>
                     (case UntypedSchemaUnion ext dumbNewSch dumbOldSch of
                        Inl err \<Rightarrow> Error (BuildDError ''Failed to merge schemas'' [])
                      | Inr unionSch \<Rightarrow> Ok (Some unionSch))))
      else Ok toSch)"

definition createSplitter ::
  "('v, 'ty, 'e, 'map) externals \<Rightarrow> ('v, 'ty) Schema option \<Rightarrow> ('v, 'ty) Schema option
     \<Rightarrow> ('v, 'ty) Joiner \<Rightarrow> diffArgs
     \<Rightarrow> ('e panicValue, 'e VerboseError, ('v, 'ty) Schema option \<times> ('v, 'ty) DiffSplitter) result" where
  "createSplitter ext fromSch toSch joiner dArgs =
     thenR (createSplitter_unionSch ext fromSch toSch dArgs) (\<lambda>unionSch.
     thenR (toUnionConv ext toSch unionSch) (\<lambda>newToUnionConv.
     thenR (toUnionConv ext fromSch unionSch) (\<lambda>oldToUnionConv.
     Ok (unionSch, NewDiffSplitter joiner oldToUnionConv newToUnionConv))))"

subsection \<open>\<^verbatim>\<open>mapTagToColName\<close> and \<^verbatim>\<open>buildPipeline\<close>\<close>

text \<open>The callback of \<^verbatim>\<open>mapTagToColName\<close>; its state is the map \<^verbatim>\<open>tagToCol\<close>.\<close>

definition mapTagToColName_cb ::
  "('v, 'ty) ColCollection \<Rightarrow> uint64 \<Rightarrow> ('v, 'ty) Column \<Rightarrow> (uint64 \<Rightarrow> string option)
     \<Rightarrow> (bool \<times> 'e option) \<times> (uint64 \<Rightarrow> string option)" where
  "mapTagToColName_cb allCols tag col0 tagToCol =
     (case GetByTag allCols tag of
        Some col \<Rightarrow> ((False, None), tagToCol(tag \<mapsto> Name col))
      | None \<Rightarrow> ((False, None), tagToCol(tag \<mapsto> [])))"

definition mapTagToColName ::
  "('v, 'ty) Schema option \<Rightarrow> ('v, 'ty) Schema option
     \<Rightarrow> ('e panicValue, 'e VerboseError, uint64 \<Rightarrow> string option) result" where
  "mapTagToColName sch untypedUnionSch =
     (case sch of
        None \<Rightarrow> Panic NilDereference
      | Some s \<Rightarrow>
          (let allCols = GetAllCols s
           in case untypedUnionSch of
                None \<Rightarrow> Panic NilDereference
              | Some u \<Rightarrow>
                  (case IterE (GetAllCols u) (mapTagToColName_cb allCols) Map.empty of
                     (Some (err :: 'e), tagToCol) \<Rightarrow>
                       Error (BuildDError ''error: failed to map columns to tags'' [])
                   | (None, tagToCol) \<Rightarrow> Ok tagToCol)))"

definition buildPipeline ::
  "('v, 'ty, 'e, 'map) externals \<Rightarrow> diffArgs \<Rightarrow> ('v, 'ty) Joiner \<Rightarrow> ('v, 'ty) DiffSplitter
     \<Rightarrow> ('v, 'ty) Schema option \<Rightarrow> ('v, 'ty, 'map) RowDiffSource \<Rightarrow> ('v, 'ty) DiffSink
     \<Rightarrow> ('e panicValue, 'e VerboseError, ('v, 'ty, 'map) Pipeline) result" where
  "buildPipeline ext dArgs joiner ds untypedUnionSch src snk =
     (case ParseWhere ext joiner (whereClause dArgs) of
        Inl err \<Rightarrow>
          Error (SetPrintUsage (AddCause (BuildDError ''error: failed to parse where clause'' []) err))
      | Inr where' \<Rightarrow>
          (let selectStage =
                 (if where' \<noteq> None \<or> limit dArgs \<noteq> 0
                  then [(StageName ''select'',
                         LimitAndFilter (case where' of None \<Rightarrow> (\<lambda>r. True) | Some f \<Rightarrow> f)
                           (limit dArgs))]
                  else []);
               splitStage = [(StageName ''split_diffs'', SplitDiffIntoOldAndNew ds)];
               tabularStages =
                 (if diffOutput dArgs = TabularDiffOutput
                  then [(NullPrintingStage, NullPrinterProcessRow untypedUnionSch),
                        (fwtStageName, TransformToFWT untypedUnionSch)]
                  else [])
           in Ok (NewAsyncPipeline src snk (selectStage @ splitStage @ tabularStages))))"

subsection \<open>\<^verbatim>\<open>diffRows\<close>\<close>

text \<open>The sink for the output mode.\<close>

definition newSink ::
  "('v, 'ty, 'e, 'map) externals \<Rightarrow> diffArgs \<Rightarrow> ('v, 'ty) Schema option \<Rightarrow> nat \<Rightarrow> string
     \<Rightarrow> ('e panicValue, 'e VerboseError, ('v, 'ty) DiffSink) result" where
  "newSink ext dArgs unionSch numHeaderRows tblName =
     (if diffOutput dArgs = TabularDiffOutput
      then (case NewColorDiffSink_fails ext unionSch numHeaderRows of
              Some err \<Rightarrow> Error (AddCause (BuildDError [] []) err)
            | None \<Rightarrow> Ok (NewColorDiffSink unionSch numHeaderRows))
      else (case NewSQLDiffSink_fails ext unionSch tblName of
              Some err \<Rightarrow> Error (AddCause (BuildDError [] []) err)
            | None \<Rightarrow> Ok (NewSQLDiffSink unionSch tblName)))"

text \<open>One header row made from a map of column names.\<close>

definition headerRow ::
  "('v, 'ty, 'e, 'map) externals \<Rightarrow> 'map \<Rightarrow> ('v, 'ty) Schema option \<Rightarrow> (uint64 \<Rightarrow> string option)
     \<Rightarrow> ('e panicValue, 'e VerboseError, 'v Row) result" where
  "headerRow ext toRows unionSch colNames =
     (case NewRowFromTaggedStrings ext toRows unionSch colNames of
        Inl err \<Rightarrow> Error (AddCause (BuildDError ''error: creating diff header'' []) err)
      | Inr r \<Rightarrow> Ok r)"

text \<open>
  The block \<^verbatim>\<open>if dArgs.diffOutput != SQLDiffOutput { ... }\<close> of \<^verbatim>\<open>diffRows\<close>, which
  injects the header rows into the pipeline that \<^verbatim>\<open>buildPipeline\<close> returned.
\<close>

definition injectHeaders ::
  "('v, 'ty, 'e, 'map) externals \<Rightarrow> diffArgs \<Rightarrow> 'map \<Rightarrow> ('v, 'ty) Schema option
     \<Rightarrow> (uint64 \<Rightarrow> string option) \<Rightarrow> (uint64 \<Rightarrow> string option) \<Rightarrow> ('v, 'ty, 'map) Pipeline
     \<Rightarrow> ('e panicValue, 'e VerboseError, ('v, 'ty, 'map) Pipeline) result" where
  "injectHeaders ext dArgs toRows unionSch oldColNames newColNames p =
     (let schemasEqual = (oldColNames = newColNames)
      in if diffOutput dArgs \<noteq> SQLDiffOutput
         then (if schemasEqual
               then thenR (headerRow ext toRows unionSch newColNames) (\<lambda>schRow.
                    Ok (InjectRow p fwtStageName schRow))
               else thenR (headerRow ext toRows unionSch oldColNames) (\<lambda>newSchRow.
                    let p1 = InjectRowWithProps p fwtStageName newSchRow
                               [(DiffTypeProp, DiffModifiedOld)]
                    in thenR (headerRow ext toRows unionSch newColNames) (\<lambda>oldSchRow.
                       Ok (InjectRowWithProps p1 fwtStageName oldSchRow
                             [(DiffTypeProp, DiffModifiedNew)]))))
         else Ok p)"

text \<open>
  \<^verbatim>\<open>diffRows\<close> up to the call of \<^verbatim>\<open>p.Start()\<close>: the pipeline that is about to be
  started, or the error or panic that ends the function before.
\<close>

definition diffRows_setup ::
  "('v, 'ty, 'e, 'map) externals \<Rightarrow> 'map \<Rightarrow> 'map \<Rightarrow> ('v, 'ty) Schema option
     \<Rightarrow> ('v, 'ty) Schema option \<Rightarrow> diffArgs \<Rightarrow> string
     \<Rightarrow> ('e panicValue, 'e VerboseError, ('v, 'ty, 'map) Pipeline) result" where
  "diffRows_setup ext fromRows toRows fromSch toSch dArgs tblName =
     (let namedSchemas = [(diff_From, fromSch), (diff_To, toSch)]
      in case NewJoiner_fails ext namedSchemas of
           Some err \<Rightarrow> Error (AddCause (BuildDError [] []) err)
         | None \<Rightarrow>
             (let joiner = NewJoiner namedSchemas [(diff_To, toNamer), (diff_From, fromNamer)]
              in thenR (createSplitter ext fromSch toSch joiner dArgs) (\<lambda>(unionSch, ds).
                 let src = NewRowDiffSource 1024 fromRows toRows joiner
                 in thenR (mapTagToColName fromSch unionSch) (\<lambda>oldColNames.
                    thenR (mapTagToColName toSch unionSch) (\<lambda>newColNames.
                    let schemasEqual = (oldColNames = newColNames);
                        numHeaderRows = (if \<not> schemasEqual then 2 else 1)
                    in thenR (newSink ext dArgs unionSch numHeaderRows tblName) (\<lambda>snk.
                       thenR (buildPipeline ext dArgs joiner ds unionSch src snk) (\<lambda>p.
                       injectHeaders ext dArgs toRows unionSch oldColNames newColNames p)))))))"

text \<open>
  \<^verbatim>\<open>diffRows\<close>: the returned error if any, and the pipeline as it was started, if the
  function got that far. The deferred \<^verbatim>\<open>Close\<close> calls act on the differ, the source and
  the sink only.
\<close>

definition diffRows ::
  "('v, 'ty, 'e, 'map) externals \<Rightarrow> 'map \<Rightarrow> 'map \<Rightarrow> ('v, 'ty) Schema option
     \<Rightarrow> ('v, 'ty) Schema option \<Rightarrow> diffArgs \<Rightarrow> string
     \<Rightarrow> ('e panicValue, 'e VerboseError, unit) result \<times> ('v, 'ty, 'map) Pipeline option" where
  "diffRows ext fromRows toRows fromSch toSch dArgs tblName =
     (case diffRows_setup ext fromRows toRows fromSch toSch dArgs tblName of
        Panic pv \<Rightarrow> (Panic pv, None)
      | Error verr \<Rightarrow> (Error verr, None)
      | Ok p0 \<Rightarrow>
          (let p = Start p0
           in case Wait ext p of
                Some err \<Rightarrow> (Error (BuildDError ''Error diffing: %v'' [ArgErrorText err]), Some p)
              | None \<Rightarrow>
                  (case badRow ext p of
                     Some trf \<Rightarrow>
                       (Error (AddDetails (AddDetails (BuildDError ''Failed transforming row'' [])
                                 (TransformName trf)) (Details trf)), Some p)
                   | None \<Rightarrow> (Ok (), Some p))))"

subsection \<open>Example schemas, arguments and collaborators\<close>

text \<open>Two versions of a table: the second renames column 1 and adds column 2.\<close>

definition sch_v1 :: "(string, unit) Schema" where
  "sch_v1 =
     [\<lparr>Name = ''id'', Tag = 0, TypeInfo = (), IsPartOfPK = True, Constraints = []\<rparr>,
      \<lparr>Name = ''name'', Tag = 1, TypeInfo = (), IsPartOfPK = False, Constraints = []\<rparr>]"

definition sch_v2 :: "(string, unit) Schema" where
  "sch_v2 =
     [\<lparr>Name = ''id'', Tag = 0, TypeInfo = (), IsPartOfPK = True, Constraints = []\<rparr>,
      \<lparr>Name = ''full_name'', Tag = 1, TypeInfo = (), IsPartOfPK = False, Constraints = []\<rparr>,
      \<lparr>Name = ''age'', Tag = 2, TypeInfo = (), IsPartOfPK = False, Constraints = []\<rparr>]"

definition dumb_v1 :: "(string, unit) Schema" where
  "dumb_v1 =
     [\<lparr>Name = ''0'', Tag = 0, TypeInfo = (), IsPartOfPK = True, Constraints = []\<rparr>,
      \<lparr>Name = ''1'', Tag = 1, TypeInfo = (), IsPartOfPK = False, Constraints = []\<rparr>]"

definition dumb_v2 :: "(string, unit) Schema" where
  "dumb_v2 =
     [\<lparr>Name = ''0'', Tag = 0, TypeInfo = (), IsPartOfPK = True, Constraints = []\<rparr>,
      \<lparr>Name = ''1'', Tag = 1, TypeInfo = (), IsPartOfPK = False, Constraints = []\<rparr>,
      \<lparr>Name = ''2'', Tag = 2, TypeInfo = (), IsPartOfPK = False, Constraints = []\<rparr>]"

definition names_v1 :: "uint64 \<Rightarrow> string option" where
  "names_v1 = [0 \<mapsto> ''id'', 1 \<mapsto> ''name'', 2 \<mapsto> []]"

definition names_v2 :: "uint64 \<Rightarrow> string option" where
  "names_v2 = [0 \<mapsto> ''id'', 1 \<mapsto> ''full_name'', 2 \<mapsto> ''age'']"

definition args_tabular :: diffArgs where
  "args_tabular =
     \<lparr>diffParts = SchemaAndDataDiff, diffOutput = TabularDiffOutput, tableSet = [],
      limit = 0, whereClause = []\<rparr>"

definition args_sql :: diffArgs where
  "args_sql =
     \<lparr>diffParts = SchemaAndDataDiff, diffOutput = SQLDiffOutput, tableSet = [],
      limit = 0, whereClause = []\<rparr>"

text \<open>
  Collaborators that never fail: the union of two schemas appends the columns of the
  second whose tags the first lacks, and a header row holds the names as its values.
\<close>

definition ext_ok :: "(string, unit, string, unit) externals" where
  "ext_ok =
     \<lparr>NewJoiner_fails = (\<lambda>schs. None),
      UntypedSchemaUnion = (\<lambda>a b. Inr (a @ filter (\<lambda>col. Tag col \<notin> set (Tags a)) b)),
      TagMapping_fails = (\<lambda>src dest. None),
      NewColorDiffSink_fails = (\<lambda>sch n. None),
      NewSQLDiffSink_fails = (\<lambda>sch tbl. None),
      ParseWhere = (\<lambda>j w. Inr None),
      NewRowFromTaggedStrings = (\<lambda>rows sch names. Inr names),
      Wait = (\<lambda>p. None),
      badRow = (\<lambda>p. None)\<rparr>"

definition joiner_v :: "(string, unit) Joiner" where
  "joiner_v =
     NewJoiner [(diff_From, Some sch_v1), (diff_To, Some sch_v2)]
       [(diff_To, toNamer), (diff_From, fromNamer)]"

subsection \<open>Table deltas\<close>

text \<open>
  Modelled from the spec: \<^verbatim>\<open>diff.TableDelta\<close>, whose declaration is not among the
  sources: the two names and the two optional table snapshots. \<^verbatim>\<open>IsAdd()\<close> holds iff
  the from-table is absent, \<^verbatim>\<open>IsDrop()\<close> iff the to-table is absent.
\<close>

record 'tbl TableDelta =
  FromName :: string
  ToName :: string
  FromTable :: "'tbl option"
  ToTable :: "'tbl option"

definition IsAdd :: "'tbl TableDelta \<Rightarrow> bool" where
  "IsAdd td = (FromTable td = None)"

definition IsDrop :: "'tbl TableDelta \<Rightarrow> bool" where
  "IsDrop td = (ToTable td = None)"

text \<open>
  What \<^verbatim>\<open>diffRoots\<close> and the functions it calls ask of other packages, for the two roots
  at hand: the table deltas and the union of the table names, the schemas and row maps
  of a delta, the hash of a table, the equality of two schemas, the reports and the
  final error of \<^verbatim>\<open>diff.Summary\<close> on two maps, and the name of the docs table.
\<close>

record ('v, 'ty, 'e, 'map, 'tbl) rootExternals =
  GetTableDeltas :: "'e + 'tbl TableDelta list"
  UnionTableNames :: "'e + string list"
  GetSchemas :: "'tbl TableDelta \<Rightarrow> 'e + ('v, 'ty) Schema option \<times> ('v, 'ty) Schema option"
  GetMaps :: "'tbl TableDelta \<Rightarrow> 'e + 'map \<times> 'map"
  HashOf :: "'tbl \<Rightarrow> 'e + string"
  SchemasAreEqual :: "('v, 'ty) Schema option \<Rightarrow> ('v, 'ty) Schema option \<Rightarrow> bool"
  SummaryRun :: "'map \<Rightarrow> 'map \<Rightarrow> receive list \<times> 'e option"
  DocTableName :: string

text \<open>
  What is written to the terminal and which of the three parts ran, in order. The
  text of the schema diff and of the doc diffs is not spelled out: an event records
  that it was printed and from what.
\<close>

datatype ('v, 'ty, 'map, 'tbl) rootEvent =
    PrintedDocDiffs "'tbl option" "'tbl option"
  | PrintedTableHeader string
  | PrintedDeletedTable
  | PrintedAddedTable
  | PrintedFromHash string string
  | PrintedToHash string string
  | RanDiffSummary "cliOutput list"
  | CalledDiffSchemas "'tbl TableDelta"
  | PrintedTabularSchemaDiff string "('v, 'ty) Schema option" "('v, 'ty) Schema option"
  | PrintedSqlSchemaDiff "'tbl TableDelta"
  | RanDiffRows string "('v, 'ty, 'map) Pipeline option"

subsection \<open>\<^verbatim>\<open>printTableDiffSummary\<close>\<close>

definition printTableDiffSummary ::
  "('v, 'ty, 'e, 'map, 'tbl) rootExternals \<Rightarrow> string \<Rightarrow> 'tbl option \<Rightarrow> 'tbl option
     \<Rightarrow> 'e panicValue option \<times> ('v, 'ty, 'map, 'tbl) rootEvent list" where
  "printTableDiffSummary rx tblName fromTable toTable =
     (if tblName = DocTableName rx then (None, [PrintedDocDiffs fromTable toTable])
      else (case toTable of
              None \<Rightarrow> (None, [PrintedTableHeader tblName, PrintedDeletedTable])
            | Some toT \<Rightarrow>
                (case fromTable of
                   None \<Rightarrow> (None, [PrintedTableHeader tblName, PrintedAddedTable])
                 | Some fromT \<Rightarrow>
                     (case HashOf rx fromT of
                        Inl err \<Rightarrow> (Some (PanicErr err), [PrintedTableHeader tblName])
                      | Inr h1 \<Rightarrow>
                          (case HashOf rx toT of
                             Inl err \<Rightarrow>
                               (Some (PanicErr err),
                                [PrintedTableHeader tblName, PrintedFromHash tblName h1])
                           | Inr h2 \<Rightarrow>
                               (None,
                                [PrintedTableHeader tblName, PrintedFromHash tblName h1,
                                 PrintedToHash tblName h2]))))))"

subsection \<open>\<^verbatim>\<open>diffSchemas\<close>\<close>

definition cannotRetrieveSchema :: "'tbl TableDelta \<Rightarrow> 'e \<Rightarrow> 'e VerboseError" where
  "cannotRetrieveSchema td err =
     AddCause (BuildDError ''cannot retrieve schema for table %s'' [ArgString (ToName td)]) err"

definition sqlSchemaDiff ::
  "('v, 'ty, 'e, 'map, 'tbl) rootExternals \<Rightarrow> 'tbl TableDelta
     \<Rightarrow> ('e panicValue, 'e VerboseError, unit) result \<times> ('v, 'ty, 'map, 'tbl) rootEvent list" where
  "sqlSchemaDiff rx td =
     (case GetSchemas rx td of
        Inl err \<Rightarrow> (Error (cannotRetrieveSchema td err), [])
      | Inr (fromSch, toSch) \<Rightarrow> (Ok (), [PrintedSqlSchemaDiff td]))"

definition tabularSchemaDiffPanic :: string where
  "tabularSchemaDiffPanic = ''cannot perform tabular schema diff for added/dropped tables''"

text \<open>
  \<^verbatim>\<open>diffSchemas\<close>. The first event records the call itself; \<^verbatim>\<open>tabularSchemaDiff\<close> prints
  the result of \<^verbatim>\<open>diff.DiffSchemas(fromSch, toSch)\<close> and returns \<^verbatim>\<open>nil\<close>.
\<close>

definition diffSchemas ::
  "('v, 'ty, 'e, 'map, 'tbl) rootExternals \<Rightarrow> 'tbl TableDelta \<Rightarrow> diffArgs
     \<Rightarrow> ('e panicValue, 'e VerboseError, unit) result \<times> ('v, 'ty, 'map, 'tbl) rootEvent list" where
  "diffSchemas rx td dArgs =
     (case GetSchemas rx td of
        Inl err \<Rightarrow> (Error (cannotRetrieveSchema td err), [CalledDiffSchemas td])
      | Inr (fromSch, toSch) \<Rightarrow>
          if SchemasAreEqual rx fromSch toSch then (Ok (), [CalledDiffSchemas td])
          else if diffOutput dArgs = TabularDiffOutput
          then (if IsDrop td \<or> IsAdd td
                then (Panic (PanicMsg tabularSchemaDiffPanic), [CalledDiffSchemas td])
                else (Ok (), [CalledDiffSchemas td, PrintedTabularSchemaDiff (ToName td) fromSch toSch]))
          else (case sqlSchemaDiff rx td of
                  (res, evs) \<Rightarrow> (res, CalledDiffSchemas td # evs)))"

subsection \<open>\<^verbatim>\<open>diffRoots\<close>\<close>

text \<open>
  How a statement of the loop body ends: control falls through to the next statement,
  \<^verbatim>\<open>continue\<close> goes to the next table delta, or \<^verbatim>\<open>return\<close> (or a panic) leaves
  \<^verbatim>\<open>diffRoots\<close>.
\<close>

datatype ('s, 'r) flow = Next 's | Continue 's | Return 'r

fun andThen :: "('s, 'r) flow \<Rightarrow> ('s \<Rightarrow> ('s, 'r) flow) \<Rightarrow> ('s, 'r) flow" where
  "andThen (Next s) f = f s"
| "andThen (Continue s) f = Continue s"
| "andThen (Return r) f = Return r"

text \<open>
  The state of the loop: the named result \<^verbatim>\<open>verr\<close>, which lives across iterations, and
  the events so far.
\<close>

type_synonym ('v, 'ty, 'e, 'map, 'tbl) rootState =
  "'e VerboseError option \<times> ('v, 'ty, 'map, 'tbl) rootEvent list"

type_synonym ('v, 'ty, 'e, 'map, 'tbl) rootResult =
  "('e panicValue, 'e VerboseError, unit) result \<times> ('v, 'ty, 'map, 'tbl) rootEvent list"

definition Contains :: "string list \<Rightarrow> string \<Rightarrow> bool" where
  "Contains s x = (x \<in> set s)"

text \<open>\<^verbatim>\<open>if dArgs.diffParts&Summary != 0 { ... }\<close>\<close>

definition summaryPart ::
  "('v, 'ty, 'e, 'map, 'tbl) rootExternals \<Rightarrow> diffArgs \<Rightarrow> ('v, 'ty) Schema option \<Rightarrow> 'map \<Rightarrow> 'map
     \<Rightarrow> ('v, 'ty, 'e, 'map, 'tbl) rootState
     \<Rightarrow> (('v, 'ty, 'e, 'map, 'tbl) rootState, ('v, 'ty, 'e, 'map, 'tbl) rootResult) flow" where
  "summaryPart rx dArgs fromSch fromMap toMap st =
     (case st of (verr, tr) \<Rightarrow>
        if diffParts dArgs AND Summary \<noteq> 0
        then (case fromSch of
                None \<Rightarrow> Return (Panic NilDereference, tr)
              | Some s \<Rightarrow>
                  (let numCols = of_nat (Size (GetAllCols s))
                   in case SummaryRun rx fromMap toMap of
                        (ch, aeGet) \<Rightarrow>
                          (case diffSummary ch numCols aeGet of
                             (verr', out) \<Rightarrow> Next (verr', tr @ [RanDiffSummary out]))))
        else Next (verr, tr))"

text \<open>\<^verbatim>\<open>if dArgs.diffParts&SchemaOnlyDiff != 0 { verr = diffSchemas(ctx, td, dArgs) }\<close>\<close>

definition schemaPart ::
  "('v, 'ty, 'e, 'map, 'tbl) rootExternals \<Rightarrow> diffArgs \<Rightarrow> 'tbl TableDelta
     \<Rightarrow> ('v, 'ty, 'e, 'map, 'tbl) rootState
     \<Rightarrow> (('v, 'ty, 'e, 'map, 'tbl) rootState, ('v, 'ty, 'e, 'map, 'tbl) rootResult) flow" where
  "schemaPart rx dArgs td st =
     (case st of (verr, tr) \<Rightarrow>
        if diffParts dArgs AND SchemaOnlyDiff \<noteq> 0
        then (case diffSchemas rx td dArgs of
                (Panic pv, evs) \<Rightarrow> Return (Panic pv, tr @ evs)
              | (Error v, evs) \<Rightarrow> Next (Some v, tr @ evs)
              | (Ok u, evs) \<Rightarrow> Next (None, tr @ evs))
        else Next (verr, tr))"

text \<open>\<^verbatim>\<open>if dArgs.diffParts&DataOnlyDiff != 0 { ... verr = diffRows(...) }\<close>\<close>

definition dataPart ::
  "('v, 'ty, 'e, 'map) externals \<Rightarrow> diffArgs \<Rightarrow> 'tbl TableDelta \<Rightarrow> string
     \<Rightarrow> ('v, 'ty) Schema option \<Rightarrow> ('v, 'ty) Schema option \<Rightarrow> 'map \<Rightarrow> 'map
     \<Rightarrow> ('v, 'ty, 'e, 'map, 'tbl) rootState
     \<Rightarrow> (('v, 'ty, 'e, 'map, 'tbl) rootState, ('v, 'ty, 'e, 'map, 'tbl) rootResult) flow" where
  "dataPart ext dArgs td tblName fromSch toSch fromMap toMap st =
     (case st of (verr, tr) \<Rightarrow>
        if diffParts dArgs AND DataOnlyDiff \<noteq> 0
        then (if IsDrop td \<and> diffOutput dArgs = SQLDiffOutput then Continue (verr, tr)
              else (let fromSch' = (if IsAdd td then toSch else fromSch)
                    in case diffRows ext fromMap toMap fromSch' toSch dArgs tblName of
                         (Panic pv, p) \<Rightarrow> Return (Panic pv, tr @ [RanDiffRows tblName p])
                       | (Error v, p) \<Rightarrow> Next (Some v, tr @ [RanDiffRows tblName p])
                       | (Ok u, p) \<Rightarrow> Next (None, tr @ [RanDiffRows tblName p])))
        else Next (verr, tr))"

text \<open>The body of \<^verbatim>\<open>for _, td := range tableDeltas\<close>.\<close>

definition diffRoots_body ::
  "('v, 'ty, 'e, 'map) externals \<Rightarrow> ('v, 'ty, 'e, 'map, 'tbl) rootExternals \<Rightarrow> diffArgs
     \<Rightarrow> 'tbl TableDelta \<Rightarrow> ('v, 'ty, 'e, 'map, 'tbl) rootState
     \<Rightarrow> (('v, 'ty, 'e, 'map, 'tbl) rootState, ('v, 'ty, 'e, 'map, 'tbl) rootResult) flow" where
  "diffRoots_body ext rx dArgs td st0 =
     andThen (if \<not> Contains (tableSet dArgs) (FromName td) \<and> \<not> Contains (tableSet dArgs) (ToName td)
              then Continue st0 else Next st0) (\<lambda>st1.
     let tblName = ToName td; fromTable = FromTable td; toTable = ToTable td
     in andThen (if fromTable = None \<and> toTable = None
                 then Return (Error (BuildDError ''error: both tables in tableDelta are nil'' []),
                              snd st1)
                 else Next st1) (\<lambda>st2.
        andThen (if diffOutput dArgs = TabularDiffOutput
                 then (case printTableDiffSummary rx tblName fromTable toTable of
                         (Some pv, evs) \<Rightarrow> Return (Panic pv, snd st2 @ evs)
                       | (None, evs) \<Rightarrow>
                           if IsDrop td \<or> IsAdd td then Continue (fst st2, snd st2 @ evs)
                           else Next (fst st2, snd st2 @ evs))
                 else Next st2) (\<lambda>st3.
        andThen (if tblName = DocTableName rx then Continue st3 else Next st3) (\<lambda>st4.
        case GetSchemas rx td of
          Inl err \<Rightarrow> Return (Error (cannotRetrieveSchema td err), snd st4)
        | Inr (fromSch, toSch) \<Rightarrow>
            (case GetMaps rx td of
               Inl err \<Rightarrow>
                 Return (Error (AddCause (BuildDError ''could not get row data for table %s''
                                            [ArgString (ToName td)]) err), snd st4)
             | Inr (fromMap, toMap) \<Rightarrow>
                 andThen (summaryPart rx dArgs fromSch fromMap toMap st4) (\<lambda>st5.
                 andThen (schemaPart rx dArgs td st5) (\<lambda>st6.
                 andThen (dataPart ext dArgs td tblName fromSch toSch fromMap toMap st6) (\<lambda>st7.
                 case fst st7 of
                   Some v \<Rightarrow> Return (Error v, snd st7)
                 | None \<Rightarrow> Next st7))))))))"

text \<open>The loop; after the last delta \<^verbatim>\<open>diffRoots\<close> returns \<^verbatim>\<open>nil\<close>.\<close>

fun diffRoots_loop ::
  "('v, 'ty, 'e, 'map) externals \<Rightarrow> ('v, 'ty, 'e, 'map, 'tbl) rootExternals \<Rightarrow> diffArgs
     \<Rightarrow> 'tbl TableDelta list \<Rightarrow> ('v, 'ty, 'e, 'map, 'tbl) rootState
     \<Rightarrow> ('v, 'ty, 'e, 'map, 'tbl) rootResult" where
  "diffRoots_loop ext rx dArgs [] st = (Ok (), snd st)"
| "diffRoots_loop ext rx dArgs (td # tds) st =
     (case diffRoots_body ext rx dArgs td st of
        Return r \<Rightarrow> r
      | Continue st' \<Rightarrow> diffRoots_loop ext rx dArgs tds st'
      | Next st' \<Rightarrow> diffRoots_loop ext rx dArgs tds st')"

text \<open>
  \<^verbatim>\<open>diffRoots\<close>. When no table was named, the set of tables becomes the union of the
  table names of the two roots.
\<close>

definition diffRoots ::
  "('v, 'ty, 'e, 'map) externals \<Rightarrow> ('v, 'ty, 'e, 'map, 'tbl) rootExternals \<Rightarrow> diffArgs
     \<Rightarrow> ('v, 'ty, 'e, 'map, 'tbl) rootResult" where
  "diffRoots ext rx dArgs =
     (case GetTableDeltas rx of
        Inl err \<Rightarrow> (Error (AddCause (BuildDError ''error: unable to diff tables'' []) err), [])
      | Inr tableDeltas \<Rightarrow>
          (if length (tableSet dArgs) = 0
           then (case UnionTableNames rx of
                   Inl err \<Rightarrow>
                     (Error (AddCause (BuildDError ''error: failed to get table names'' []) err), [])
                 | Inr utn \<Rightarrow>
                     diffRoots_loop ext rx (dArgs\<lparr>tableSet := tableSet dArgs @ utn\<rparr>) tableDeltas
                       (None, []))
           else diffRoots_loop ext rx dArgs tableDeltas (None, [])))"

subsection \<open>Predicates on results and on control flow\<close>

text \<open>A result that, if it is a panic, is the dereference of \<^verbatim>\<open>nil\<close>.\<close>

definition panicsOnlyNil :: "('e panicValue, 'x, 'a) result \<Rightarrow> bool" where
  "panicsOnlyNil r = (case r of Panic pv \<Rightarrow> pv = NilDereference | Error x \<Rightarrow> True | Ok a \<Rightarrow> True)"

text \<open>
  A property of each of the three ways a statement can end: \<open>N\<close> of the state it falls
  through with, \<open>C\<close> of the state it continues the loop with, \<open>R\<close> of what it returns.
\<close>

definition flowAll :: "('s \<Rightarrow> bool) \<Rightarrow> ('s \<Rightarrow> bool) \<Rightarrow> ('r \<Rightarrow> bool) \<Rightarrow> ('s, 'r) flow \<Rightarrow> bool" where
  "flowAll N C R f = (case f of Next s \<Rightarrow> N s | Continue s \<Rightarrow> C s | Return r \<Rightarrow> R r)"

text \<open>The table deltas for which an event list records a call of \<^verbatim>\<open>diffSchemas\<close>.\<close>

fun diffSchemasCalls :: "('v, 'ty, 'map, 'tbl) rootEvent list \<Rightarrow> 'tbl TableDelta list" where
  "diffSchemasCalls [] = []"
| "diffSchemasCalls (CalledDiffSchemas td # evs) = td # diffSchemasCalls evs"
| "diffSchemasCalls (ev # evs) = diffSchemasCalls evs"

text \<open>
  In tabular mode, every recorded call of \<^verbatim>\<open>diffSchemas\<close> is for a table that is neither
  added nor dropped.
\<close>

definition tabularCallsOnModified ::
  "diffArgs \<Rightarrow> ('v, 'ty, 'map, 'tbl) rootEvent list \<Rightarrow> bool" where
  "tabularCallsOnModified dArgs tr =
     (diffOutput dArgs = TabularDiffOutput \<longrightarrow>
        (\<forall>td \<in> set (diffSchemasCalls tr). \<not> IsAdd td \<and> \<not> IsDrop td))"

subsection \<open>Example roots\<close>

text \<open>Three table deltas: an added table, a dropped table and a table present on both sides.\<close>

definition td_added :: "nat TableDelta" where
  "td_added = \<lparr>FromName = ''new_t'', ToName = ''new_t'', FromTable = None, ToTable = Some 1\<rparr>"

definition td_dropped :: "nat TableDelta" where
  "td_dropped = \<lparr>FromName = ''old_t'', ToName = ''old_t'', FromTable = Some 2, ToTable = None\<rparr>"

definition td_people :: "nat TableDelta" where
  "td_people = \<lparr>FromName = ''people'', ToName = ''people'', FromTable = Some 3, ToTable = Some 4\<rparr>"

definition rx_three :: "(string, unit, string, unit, nat) rootExternals" where
  "rx_three =
     \<lparr>GetTableDeltas = Inr [td_added, td_dropped, td_people],
      UnionTableNames = Inr [''new_t'', ''old_t'', ''people''],
      GetSchemas = (\<lambda>td. Inr (if FromTable td = None then None else Some sch_v1,
                                if ToTable td = None then None else Some sch_v2)),
      GetMaps = (\<lambda>td. Inr ((), ())),
      HashOf = (\<lambda>t. Inr ''h''),
      SchemasAreEqual = (\<lambda>a b. False),
      SummaryRun = (\<lambda>a b. ([], None)),
      DocTableName = ''dolt_docs''\<rparr>"

definition args_tabular_schema :: diffArgs where
  "args_tabular_schema =
     \<lparr>diffParts = SchemaOnlyDiff, diffOutput = TabularDiffOutput, tableSet = [],
      limit = 0, whereClause = []\<rparr>"

section \<open>Properties of the summary aggregation\<close>

subsection \<open>Rounding to \<^verbatim>\<open>float64\<close>\<close>

lemma bitlen_nonneg: "0 \<le> bitlen n"
proof (induction n rule: bitlen.induct)
  case (1 n)
  then show ?case by (cases "n \<le> 0") (simp_all add: bitlen.simps [of n])
qed

lemma bitlen_pos: "0 < n \<Longrightarrow> 1 \<le> bitlen n"
  using bitlen_nonneg [of "n div 2"] by (simp add: bitlen.simps [of n])

lemma bitlen_bounds:
  "0 < n \<Longrightarrow> 2 ^ nat (bitlen n - 1) \<le> n \<and> n < 2 ^ nat (bitlen n)"
proof (induction n rule: bitlen.induct)
  case (1 n)
  show ?case
  proof (cases "n = 1")
    case True
    then show ?thesis by (simp add: bitlen.simps [of 1] bitlen.simps [of 0])
  next
    case False
    with 1 have h: "0 < n div 2" by simp
    from 1 have nle: "\<not> n \<le> 0" by simp
    from 1(1) [OF nle h] have ih: "2 ^ nat (bitlen (n div 2) - 1) \<le> n div 2" "n div 2 < 2 ^ nat (bitlen (n div 2))"
      by simp_all
    have bl: "bitlen n = 1 + bitlen (n div 2)" using nle by (simp add: bitlen.simps [of n])
    have p: "1 \<le> bitlen (n div 2)" using h by (rule bitlen_pos)
    have e: "nat (bitlen (n div 2)) = Suc (nat (bitlen (n div 2) - 1))" using p by simp
    have "2 * 2 ^ nat (bitlen (n div 2) - 1) \<le> n" using ih(1) by simp
    moreover have "n < 2 * 2 ^ nat (bitlen (n div 2))" using ih(2) by simp
    ultimately show ?thesis using bl e p by (simp add: nat_add_distrib)
  qed
qed


lemma pow2_powi: "pow2 e = 2 powi e"
  by (simp add: pow2_def power_int_def field_simps)

lemma pow2_pos: "0 < pow2 e"
  by (simp add: pow2_powi)

lemma pow2_mono: "e \<le> e' \<Longrightarrow> pow2 e \<le> pow2 e'"
  by (simp add: pow2_powi power_int_increasing)

lemma ilog2_ge1:
  assumes "1 \<le> a"
  shows "0 \<le> ilog2 a" and "pow2 (ilog2 a) \<le> a"
proof -
  from assms have fl: "0 < \<lfloor>a\<rfloor>" by linarith
  have k: "ilog2 a = bitlen \<lfloor>a\<rfloor> - 1" using assms by (simp add: ilog2_def)
  show nn: "0 \<le> ilog2 a" using bitlen_pos [OF fl] k by simp
  have "(2::int) ^ nat (bitlen \<lfloor>a\<rfloor> - 1) \<le> \<lfloor>a\<rfloor>" using bitlen_bounds [OF fl] by simp
  then have "(of_int ((2::int) ^ nat (bitlen \<lfloor>a\<rfloor> - 1)) :: rat) \<le> of_int \<lfloor>a\<rfloor>"
    by (simp only: of_int_le_iff)
  also have "\<dots> \<le> a" by simp
  finally show "pow2 (ilog2 a) \<le> a" using nn k by (simp add: pow2_def)
qed

lemma round_half_even_ge: "\<lfloor>x\<rfloor> \<le> round_half_even x"
  by (simp add: round_half_even_def Let_def)

lemma round_half_even_le: "of_int (round_half_even x) \<le> x + 1"
proof -
  have "round_half_even x \<le> \<lfloor>x\<rfloor> + 1" by (simp add: round_half_even_def Let_def)
  then have "(of_int (round_half_even x) :: rat) \<le> of_int (\<lfloor>x\<rfloor> + 1)" by (simp only: of_int_le_iff)
  also have "\<dots> \<le> x + 1" by simp
  finally show ?thesis .
qed

lemma round_f64_pos_finite:
  assumes lo: "1 \<le> a" and hi: "a \<le> 2 ^ 64"
  shows "\<exists>r. round_f64 a = Fin r \<and> 0 < r"
proof -
  define e where "e = max (ilog2 a - 52) (- 1074)"
  define m where "m = round_half_even (a / pow2 e)"
  define r where "r = of_int m * pow2 e"
  have e: "e \<le> ilog2 a" using ilog2_ge1(1) [OF lo] by (simp add: e_def)
  have pe: "pow2 e \<le> a" using pow2_mono [OF e] ilog2_ge1(2) [OF lo] by simp
  have x1: "1 \<le> a / pow2 e" using pe pow2_pos [of e] by (simp add: field_simps)
  then have fl1: "1 \<le> \<lfloor>a / pow2 e\<rfloor>" by linarith
  have m1: "1 \<le> m" using fl1 round_half_even_ge [of "a / pow2 e"] unfolding m_def by linarith
  then have rpos: "0 < r" using pow2_pos [of e] by (simp add: r_def)
  have "of_int m \<le> a / pow2 e + 1" unfolding m_def by (rule round_half_even_le)
  then have "r \<le> (a / pow2 e + 1) * pow2 e"
    unfolding r_def using pow2_pos [of e] by (simp add: mult_right_mono)
  also have "\<dots> = a + pow2 e" using pow2_pos [of e] by (simp add: field_simps)
  also have "\<dots> \<le> 2 ^ 64 + 2 ^ 64" using pe hi by simp
  also have "\<dots> < pow2 1024" by (simp add: pow2_def)
  finally have rlt: "r < pow2 1024" .
  have a0: "a \<noteq> 0" "\<not> a < 0" "\<bar>a\<bar> = a" using lo by simp_all
  have "round_f64 a = Fin r"
    using rlt m1 a0 by (simp add: round_f64_def Let_def e_def [symmetric] m_def [symmetric] r_def [symmetric])
  then show ?thesis using rpos by blast
qed

lemma float64_of_uint64_zero: "float64_of_uint64 0 = Fin 0"
  by (simp add: float64_of_uint64_def round_f64_def)

lemma float64_of_uint64_pos:
  assumes "u \<noteq> 0"
  shows "\<exists>r. float64_of_uint64 u = Fin r \<and> 0 < r"
proof -
  have "0 < uint u" using assms by (simp add: word_less_def [symmetric] word_neq_0_conv [symmetric] uint_0_iff less_le)
  then have "(1::int) \<le> uint u" by simp
  then have "(of_int 1 :: rat) \<le> of_int (uint u)" by (simp only: of_int_le_iff)
  then have lo: "(1::rat) \<le> of_int (uint u)" by (simp only: of_int_1)
  have "uint u < 2 ^ 64" using uint_lt2p [of u] by simp
  then have "uint u \<le> 2 ^ 64" by simp
  then have "(of_int (uint u) :: rat) \<le> of_int (2 ^ 64)" by (simp only: of_int_le_iff)
  then have hi: "(of_int (uint u) :: rat) \<le> 2 ^ 64" by (simp only: of_int_power of_int_numeral)
  show ?thesis unfolding float64_of_uint64_def by (rule round_f64_pos_finite [OF lo hi])
qed


lemma f64_div_pos_zero: "0 < r \<Longrightarrow> f64_div (Fin r) (Fin 0) = PInf"
  by (simp add: f64_div_def f64_inf_def)

lemma f64_div_zero_zero: "f64_div (Fin 0) (Fin 0) = NaN"
  by (simp add: f64_div_def)

lemma safePercent_zero_num: "safePercent 0 d = Fin 0"
  by (simp add: safePercent_def)

lemma safePercent_zero_dom:
  assumes "100 * num \<noteq> 0"
  shows "safePercent num 0 = PInf"
proof -
  from assms have n0: "num \<noteq> 0" by auto
  from float64_of_uint64_pos [OF assms] obtain r
    where r: "float64_of_uint64 (100 * num) = Fin r" "0 < r" by blast
  show ?thesis
    using n0 r by (simp add: safePercent_def float64_of_uint64_zero f64_div_pos_zero)
qed

lemma round_f64_1: "round_f64 1 = Fin 1"
  by code_simp

lemma float64_of_int_1: "float64_of_int 1 = Fin 1"
  by (simp add: float64_of_int_def round_f64_1)

subsection \<open>Percentages over a zero denominator\<close>

text \<open>
  C1 (as amended). \<^verbatim>\<open>safePercent\<close> guards the numerator, not the denominator: with
  \<^verbatim>\<open>OldSize = 0\<close> each of the four row percentages (unmodified, adds, removes, changes)
  is 0 when its numerator is 0, so \<open>0 / 0\<close> never gives NaN there, and is \<open>+Inf\<close> when
  \<^verbatim>\<open>100 * num\<close> (in \<^verbatim>\<open>uint64\<close>) is not 0.
\<close>

theorem safePercent_zero_OldSize:
  assumes "OldSize acc = 0"
  shows "(rowsUnmodified acc = 0 \<longrightarrow> snd (unmodified (formatSummary acc colLen)) = Fin 0) \<and>
         (Adds acc = 0 \<longrightarrow> snd (insertions (formatSummary acc colLen)) = Fin 0) \<and>
         (Removes acc = 0 \<longrightarrow> snd (deletions (formatSummary acc colLen)) = Fin 0) \<and>
         (Changes acc = 0 \<longrightarrow> snd (changes (formatSummary acc colLen)) = Fin 0) \<and>
         (100 * rowsUnmodified acc \<noteq> 0 \<longrightarrow> snd (unmodified (formatSummary acc colLen)) = PInf) \<and>
         (100 * Adds acc \<noteq> 0 \<longrightarrow> snd (insertions (formatSummary acc colLen)) = PInf) \<and>
         (100 * Removes acc \<noteq> 0 \<longrightarrow> snd (deletions (formatSummary acc colLen)) = PInf) \<and>
         (100 * Changes acc \<noteq> 0 \<longrightarrow> snd (changes (formatSummary acc colLen)) = PInf)"
  using assms by (simp add: formatSummary_def safePercent_zero_num safePercent_zero_dom)

theorem safePercent_zero_OldSize_witness:
  "OldSize acc_added_to_empty = 0 \<and>
   snd (insertions (formatSummary acc_added_to_empty 1)) = PInf \<and>
   snd (deletions (formatSummary acc_added_to_empty 1)) = Fin 0"
  using safePercent_zero_OldSize [of acc_added_to_empty 1]
  by (simp add: acc_added_to_empty_def)

text \<open>
  Counterexample to C1 as stated. One row added to an empty table gives \<^verbatim>\<open>OldSize = 0\<close>; the
  percentage of added rows is then \<open>100 / 0 = +Inf\<close>, as the comment in \<^verbatim>\<open>safePercent\<close>
  says, and the unguarded cell percentage is \<open>0 / 0 = NaN\<close>. Neither is 0.
\<close>

theorem formatSummary_zero_denominator_counterexample:
  "OldSize acc_added_to_empty = 0 \<and>
   snd (insertions (formatSummary acc_added_to_empty 1)) = PInf \<and>
   snd (cellChanges (formatSummary acc_added_to_empty 1)) = NaN"
proof -
  have a: "safePercent 1 0 = PInf" using safePercent_zero_dom [of 1] by simp
  have "f64_mul (Fin 0) (Fin 1) = Fin 0" by (simp add: f64_mul_def f64_zero_def)
  then have b: "percentCellsChanged acc_added_to_empty 1 = NaN"
    by (simp add: percentCellsChanged_def acc_added_to_empty_def float64_of_uint64_zero
        float64_of_int_1 f64_div_zero_zero)
  show ?thesis using a b by (simp add: formatSummary_def acc_added_to_empty_def)
qed

subsection \<open>The unmodified-row count\<close>

text \<open>
  C2. The unmodified-row count of \<^verbatim>\<open>formatSummary\<close> is the \<^verbatim>\<open>uint64\<close> subtraction
  \<^verbatim>\<open>OldSize - Changes - Removes\<close> without any clamp: read as an integer it is the
  difference modulo \<open>2 ^ 64\<close>, and when \<^verbatim>\<open>Changes + Removes \<le> OldSize\<close> it is the exact
  difference of natural numbers.
\<close>

theorem rowsUnmodified_unclamped:
  "unmodified (formatSummary acc colLen) =
     (pluralize ''Row Unmodified'' ''Rows Unmodified'' (OldSize acc - Changes acc - Removes acc),
      safePercent (OldSize acc - Changes acc - Removes acc) (OldSize acc)) \<and>
   uint (rowsUnmodified acc) =
     (uint (OldSize acc) - uint (Changes acc) - uint (Removes acc)) mod 2 ^ 64 \<and>
   (unat (Changes acc) + unat (Removes acc) \<le> unat (OldSize acc) \<longrightarrow>
      unat (rowsUnmodified acc) = unat (OldSize acc) - unat (Changes acc) - unat (Removes acc))"
proof (intro conjI impI)
  show "unmodified (formatSummary acc colLen) =
     (pluralize ''Row Unmodified'' ''Rows Unmodified'' (OldSize acc - Changes acc - Removes acc),
      safePercent (OldSize acc - Changes acc - Removes acc) (OldSize acc))"
    by (simp add: formatSummary_def rowsUnmodified_def)
  show "uint (rowsUnmodified acc) =
     (uint (OldSize acc) - uint (Changes acc) - uint (Removes acc)) mod 2 ^ 64"
    by (simp add: rowsUnmodified_def uint_word_ariths mod_diff_left_eq)
  assume le: "unat (Changes acc) + unat (Removes acc) \<le> unat (OldSize acc)"
  then have c: "Changes acc \<le> OldSize acc" by (simp add: word_le_nat_alt)
  then have u1: "unat (OldSize acc - Changes acc) = unat (OldSize acc) - unat (Changes acc)"
    by (rule unat_sub)
  with le have "Removes acc \<le> OldSize acc - Changes acc" by (simp add: word_le_nat_alt)
  then have "unat (OldSize acc - Changes acc - Removes acc)
               = unat (OldSize acc - Changes acc) - unat (Removes acc)"
    by (rule unat_sub)
  with u1 show "unat (rowsUnmodified acc) = unat (OldSize acc) - unat (Changes acc) - unat (Removes acc)"
    by (simp add: rowsUnmodified_def)
qed

theorem rowsUnmodified_unclamped_witness:
  "unat (Changes acc_exact) + unat (Removes acc_exact) \<le> unat (OldSize acc_exact) \<and>
   unat (rowsUnmodified acc_exact) = 5 \<and>
   uint (rowsUnmodified acc_wrapping) = 2 ^ 64 - 1"
  using rowsUnmodified_unclamped [of acc_exact 1] rowsUnmodified_unclamped [of acc_wrapping 1]
  by (simp add: acc_exact_def acc_wrapping_def)

subsection \<open>The accumulator after draining the channel\<close>

text \<open>
  Each received report is added exactly once to every field, as long as the loop does
  not leave through its \<^verbatim>\<open>break\<close>.
\<close>

lemma diffSummary_loop_fields:
  assumes "\<forall>r \<in> set ch. \<not> snd r"
  shows "fst (diffSummary_loop ch (acc, count, out)) =
     \<lparr>Adds = Adds acc + (\<Sum>r\<leftarrow>ch. Adds (fst r)),
      Removes = Removes acc + (\<Sum>r\<leftarrow>ch. Removes (fst r)),
      Changes = Changes acc + (\<Sum>r\<leftarrow>ch. Changes (fst r)),
      CellChanges = CellChanges acc + (\<Sum>r\<leftarrow>ch. CellChanges (fst r)),
      NewSize = NewSize acc + (\<Sum>r\<leftarrow>ch. NewSize (fst r)),
      OldSize = OldSize acc + (\<Sum>r\<leftarrow>ch. OldSize (fst r))\<rparr>"
  using assms
proof (induction ch arbitrary: acc count out)
  case Nil
  then show ?case by simp
next
  case (Cons r ch)
  obtain p isSet where r: "r = (p, isSet)" by (cases r)
  with Cons.prems have ns: "\<not> isSet" and rest: "\<forall>r \<in> set ch. \<not> snd r" by simp_all
  show ?case
    using ns r Cons.IH [OF rest] by (simp add: Let_def accumulate_def add.assoc)
qed

text \<open>
  C3. When the receive loop of \<^verbatim>\<open>diffSummary\<close> drains the channel (no receive sees the
  error set) and no error is recorded, the accumulator that \<^verbatim>\<open>diffSummary\<close> starts at zero
  and hands to \<^verbatim>\<open>formatSummary\<close> equals, in each of its six fields, the sum of that field
  over all delivered reports, in \<^verbatim>\<open>uint64\<close> arithmetic: the output ends with the summary
  of exactly these sums, or with the no-changes line when both summed sizes are 0.
\<close>

theorem diffSummary_acc_fieldwise_sum:
  assumes "\<forall>r \<in> set ch. \<not> snd r"
  shows "\<exists>out. diffSummary ch colLen (None :: 'e option) =
           (None :: 'e VerboseError option,
            out @ [ClearLine,
                   if 0 < (\<Sum>r\<leftarrow>ch. NewSize (fst r)) \<or> 0 < (\<Sum>r\<leftarrow>ch. OldSize (fst r))
                   then SummaryLines
                          (formatSummary
                             \<lparr>Adds = (\<Sum>r\<leftarrow>ch. Adds (fst r)),
                              Removes = (\<Sum>r\<leftarrow>ch. Removes (fst r)),
                              Changes = (\<Sum>r\<leftarrow>ch. Changes (fst r)),
                              CellChanges = (\<Sum>r\<leftarrow>ch. CellChanges (fst r)),
                              NewSize = (\<Sum>r\<leftarrow>ch. NewSize (fst r)),
                              OldSize = (\<Sum>r\<leftarrow>ch. OldSize (fst r))\<rparr> colLen)
                   else NoDataChanges])"
proof -
  obtain acc count out where l: "diffSummary_loop ch (emptyProgress, 0, []) = (acc, count, out)"
    by (cases "diffSummary_loop ch (emptyProgress, 0, [])")
  from diffSummary_loop_fields [OF assms, of emptyProgress 0 "[]"] l
  have acc: "acc =
     \<lparr>Adds = (\<Sum>r\<leftarrow>ch. Adds (fst r)),
      Removes = (\<Sum>r\<leftarrow>ch. Removes (fst r)),
      Changes = (\<Sum>r\<leftarrow>ch. Changes (fst r)),
      CellChanges = (\<Sum>r\<leftarrow>ch. CellChanges (fst r)),
      NewSize = (\<Sum>r\<leftarrow>ch. NewSize (fst r)),
      OldSize = (\<Sum>r\<leftarrow>ch. OldSize (fst r))\<rparr>"
    by (simp add: emptyProgress_def)
  show ?thesis
    by (rule exI [of _ out]) (simp add: diffSummary_def l acc)
qed

theorem diffSummary_acc_fieldwise_sum_witness:
  "list_all (\<lambda>r. \<not> snd r) ch_two_reports \<and>
   fst (diffSummary ch_two_reports 2 (None :: unit option)) = None \<and>
   last (snd (diffSummary ch_two_reports 2 (None :: unit option))) =
     SummaryLines
       (formatSummary
          \<lparr>Adds = 1, Removes = 4, Changes = 3, CellChanges = 6, NewSize = 4, OldSize = 7\<rparr> 2)"
proof -
  have h: "\<forall>r \<in> set ch_two_reports. \<not> snd r" by (simp add: ch_two_reports_def)
  from diffSummary_acc_fieldwise_sum [OF h, of 2, where 'e = unit] obtain out where
    "diffSummary ch_two_reports 2 (None :: unit option) =
       (None,
        out @ [ClearLine,
               if 0 < (\<Sum>r\<leftarrow>ch_two_reports. NewSize (fst r)) \<or>
                  0 < (\<Sum>r\<leftarrow>ch_two_reports. OldSize (fst r))
               then SummaryLines
                      (formatSummary
                         \<lparr>Adds = (\<Sum>r\<leftarrow>ch_two_reports. Adds (fst r)),
                          Removes = (\<Sum>r\<leftarrow>ch_two_reports. Removes (fst r)),
                          Changes = (\<Sum>r\<leftarrow>ch_two_reports. Changes (fst r)),
                          CellChanges = (\<Sum>r\<leftarrow>ch_two_reports. CellChanges (fst r)),
                          NewSize = (\<Sum>r\<leftarrow>ch_two_reports. NewSize (fst r)),
                          OldSize = (\<Sum>r\<leftarrow>ch_two_reports. OldSize (fst r))\<rparr> 2)
               else NoDataChanges])"
    by blast
  moreover have
    "(\<Sum>r\<leftarrow>ch_two_reports. Adds (fst r)) = 1" "(\<Sum>r\<leftarrow>ch_two_reports. Removes (fst r)) = 4"
    "(\<Sum>r\<leftarrow>ch_two_reports. Changes (fst r)) = 3" "(\<Sum>r\<leftarrow>ch_two_reports. CellChanges (fst r)) = 6"
    "(\<Sum>r\<leftarrow>ch_two_reports. NewSize (fst r)) = 4" "(\<Sum>r\<leftarrow>ch_two_reports. OldSize (fst r)) = 7"
    by (simp_all add: ch_two_reports_def)
  ultimately show ?thesis using h by (simp add: list_all_iff)
qed

text \<open>
  In general the loop adds the reports received before the first receive that sees the
  error set, and nothing after.
\<close>

lemma diffSummary_loop_until_error:
  "fst (diffSummary_loop ch (acc, count, out)) =
     fold (\<lambda>r a. accumulate a (fst r)) (takeWhile (\<lambda>r. \<not> snd r) ch) acc"
proof (induction ch arbitrary: acc count out)
  case Nil
  then show ?case by simp
next
  case (Cons r ch)
  obtain p isSet where r: "r = (p, isSet)" by (cases r)
  show ?case using r Cons.IH by (simp add: Let_def)
qed

text \<open>Read as natural numbers, the sums of the accumulator are sums modulo \<open>2 ^ 64\<close>.\<close>

lemma unat_sum_list_uint64:
  "unat (sum_list (ws :: uint64 list)) = sum_list (map unat ws) mod 2 ^ 64"
  by (induction ws) (simp_all add: unat_word_ariths mod_add_right_eq)

section \<open>Properties of rows\<close>

subsection \<open>Validity\<close>

lemma constraintViolated_iff:
  "constraintViolated cnsts val = (\<exists>cnst \<in> set cnsts. \<not> SatisfiesConstraint cnst val)"
  by (induction cnsts) auto

lemma fst_GetColVal: "fst (GetColVal r tag) = r tag"
  by (simp add: GetColVal_def split: option.splits)

lemma IsValid_cb_eq:
  "IsValid_cb r tag col valid =
     (if constraintViolated (Constraints col) (r tag) then (True, False) else (False, valid))"
proof (cases "Constraints col")
  case Nil
  then show ?thesis by (simp add: IsValid_cb_def)
next
  case (Cons c cs)
  then show ?thesis by (simp add: IsValid_cb_def fst_GetColVal Let_def)
qed

lemma GetInvalidCol_cb_eq:
  "GetInvalidCol_cb r tag col badCol =
     (if constraintViolated (Constraints col) (r tag) then (True, Some col) else (False, badCol))"
proof (cases "Constraints col")
  case Nil
  then show ?thesis by (simp add: GetInvalidCol_cb_def)
next
  case (Cons c cs)
  then show ?thesis by (simp add: GetInvalidCol_cb_def fst_GetColVal Let_def)
qed

lemma Iter_IsValid_cb:
  "Iter cols (IsValid_cb r) valid =
     (if \<exists>col \<in> set cols. constraintViolated (Constraints col) (r (Tag col)) then False else valid)"
  by (induction cols arbitrary: valid) (simp_all add: IsValid_cb_eq)

lemma Iter_GetInvalidCol_cb:
  "Iter cols (GetInvalidCol_cb r) badCol =
     (case find (\<lambda>col. constraintViolated (Constraints col) (r (Tag col))) cols of
        Some col \<Rightarrow> Some col | None \<Rightarrow> badCol)"
  by (induction cols arbitrary: badCol) (simp_all add: GetInvalidCol_cb_eq)

text \<open>
  C5 (as amended). \<^verbatim>\<open>IsValid(r, sch)\<close> is true iff, for every column of the schema,
  every constraint of the column is satisfied by what \<^verbatim>\<open>GetColVal\<close> returns for the
  column's tag, which is \<^verbatim>\<open>nil\<close> when the row has no value there. A row that lacks the
  value of a constrained column is valid only if the column's constraints accept \<^verbatim>\<open>nil\<close>.
\<close>

theorem IsValid_iff_constraints:
  "IsValid r sch =
     (\<forall>col \<in> set (GetAllCols sch). \<forall>cnst \<in> set (Constraints col).
        SatisfiesConstraint cnst (fst (GetColVal r (Tag col))))"
  by (auto simp: IsValid_def Iter_IsValid_cb constraintViolated_iff fst_GetColVal)

theorem IsValid_iff_constraints_witness:
  "IsValid row_7 sch_people \<and> \<not> IsValid row_empty sch_people"
  using IsValid_iff_constraints [of row_7 sch_people] IsValid_iff_constraints [of row_empty sch_people]
  by (simp add: GetAllCols_def sch_people_def col_id_def col_name_def row_7_def row_empty_def
      notNull_def SatisfiesConstraint_def GetColVal_def)

text \<open>
  Counterexample to C5 as stated. The schema has a column with a constraint that rejects \<^verbatim>\<open>nil\<close>,
  and the row has no value at that column's tag. No present tag violates anything, yet
  \<^verbatim>\<open>IsValid\<close> answers false: it hands the absent value to the constraint as \<^verbatim>\<open>nil\<close>.
\<close>

theorem IsValid_absent_counterexample:
  "row_empty (Tag col_id) = None \<and> spec_presentTagsSatisfy row_empty sch_people \<and>
   \<not> IsValid row_empty sch_people"
  by (simp add: spec_presentTagsSatisfy_def IsValid_def GetAllCols_def sch_people_def col_id_def
      col_name_def row_empty_def IsValid_cb_def GetColVal_def notNull_def SatisfiesConstraint_def)

text \<open>
  C9. \<^verbatim>\<open>IsValid(r, sch)\<close> is true iff \<^verbatim>\<open>GetInvalidCol(r, sch)\<close> is \<^verbatim>\<open>nil\<close>, for every row
  and schema.
\<close>

theorem IsValid_iff_GetInvalidCol_nil:
  "IsValid r sch = (GetInvalidCol r sch = None)"
proof -
  let ?bad = "\<lambda>col. constraintViolated (Constraints col) (r (Tag col))"
  show ?thesis
  proof (cases "find ?bad (GetAllCols sch)")
    case None
    then have "\<not> (\<exists>col \<in> set (GetAllCols sch). ?bad col)" by (simp add: find_None_iff)
    with None show ?thesis
      by (simp add: IsValid_def GetInvalidCol_def Iter_IsValid_cb Iter_GetInvalidCol_cb)
  next
    case (Some c)
    then have "\<exists>col \<in> set (GetAllCols sch). ?bad col"
      by (auto simp: find_Some_iff intro: nth_mem)
    with Some show ?thesis
      by (simp add: IsValid_def GetInvalidCol_def Iter_IsValid_cb Iter_GetInvalidCol_cb)
  qed
qed

theorem IsValid_iff_GetInvalidCol_nil_witness:
  "IsValid row_7 sch_people \<and> GetInvalidCol row_7 sch_people = None \<and>
   \<not> IsValid row_empty sch_people \<and> GetInvalidCol row_empty sch_people = Some col_id"
proof -
  have "GetInvalidCol row_empty sch_people = Some col_id"
    by (simp add: GetInvalidCol_def GetAllCols_def sch_people_def col_id_def
      col_name_def row_empty_def GetInvalidCol_cb_def GetColVal_def notNull_def SatisfiesConstraint_def)
  moreover have "IsValid row_7 sch_people"
    by (simp add: IsValid_def GetAllCols_def sch_people_def col_id_def
      col_name_def row_7_def IsValid_cb_def GetColVal_def notNull_def SatisfiesConstraint_def)
  ultimately show ?thesis
    using IsValid_iff_GetInvalidCol_nil [of row_7 sch_people]
      IsValid_iff_GetInvalidCol_nil [of row_empty sch_people] by simp
qed

subsection \<open>Equality\<close>

lemma NilSafeEqCheck_eq: "NilSafeEqCheck v1 v2 = (v1 = v2)"
  by (cases v1; cases v2) simp_all

lemma AreEqual_loop_iff:
  "AreEqual_loop tags row1 row2 = (\<forall>tag \<in> set tags. NilSafeEqCheck (row1 tag) (row2 tag))"
  by (induction tags) (auto simp: fst_GetColVal Let_def)

text \<open>
  C4. For two non-nil rows, \<^verbatim>\<open>AreEqual\<close> is true iff at every tag of the schema's
  columns the two values are equal null-safely: both absent, or both present and equal;
  one absent and one present is unequal. Two \<^verbatim>\<open>nil\<close> rows are equal, and a \<^verbatim>\<open>nil\<close> row
  never equals a non-nil one.
\<close>

theorem AreEqual_null_safe:
  "AreEqual (Some row1) (Some row2) sch =
     (\<forall>tag \<in> set (Tags (GetAllCols sch)).
        (case (fst (GetColVal row1 tag), fst (GetColVal row2 tag)) of
           (None, None) \<Rightarrow> True
         | (Some v1, Some v2) \<Rightarrow> v1 = v2
         | _ \<Rightarrow> False)) \<and>
   AreEqual None None sch \<and>
   \<not> AreEqual None (Some row2) sch \<and>
   \<not> AreEqual (Some row1) None sch"
proof -
  have "\<And>a b :: 'a option. (case (a, b) of (None, None) \<Rightarrow> True | (None, Some _) \<Rightarrow> False
          | (Some v1, None) \<Rightarrow> False | (Some v1, Some v2) \<Rightarrow> v1 = v2) = NilSafeEqCheck a b"
    by (simp split: option.splits)
  then show ?thesis by (simp add: AreEqual_def AreEqual_loop_iff fst_GetColVal)
qed

theorem AreEqual_null_safe_witness:
  "AreEqual (Some row_7) (Some row_7) sch_people \<and>
   \<not> AreEqual (Some row_7) (Some row_7_42) sch_people \<and>
   AreEqual (Some row_7) (Some row_7_42) [col_id] \<and>
   AreEqual None None sch_people \<and> \<not> AreEqual None (Some row_7) sch_people"
  using AreEqual_null_safe [of row_7 row_7 sch_people] AreEqual_null_safe [of row_7 row_7_42 sch_people]
    AreEqual_null_safe [of row_7 row_7_42 "[col_id]"]
  by (simp add: Tags_def GetAllCols_def sch_people_def col_id_def col_name_def row_7_def
      row_7_42_def GetColVal_def)

section \<open>Properties of the diff command\<close>

subsection \<open>Decimal rendering\<close>

lemma digitValue_digitChar: "d < 10 \<Longrightarrow> digitValue (digitChar d) = d"
proof -
  assume "d < 10"
  then have "d \<in> {0,1,2,3,4,5,6,7,8,9}" by auto
  then show ?thesis by (auto simp: digitValue_def digitChar_def)
qed

lemma decimalValue_snoc: "decimalValue (s @ [c]) = 10 * decimalValue s + digitValue c"
  by (simp add: decimalValue_def)

lemma decimalValue_formatDecimal: "decimalValue (formatDecimal n) = n"
proof (induction n rule: formatDecimal.induct)
  case (1 n)
  show ?case
  proof (cases "n < 10")
    case True
    then show ?thesis
      by (simp add: formatDecimal.simps [of n] decimalValue_def digitValue_digitChar)
  next
    case False
    with 1 have "decimalValue (formatDecimal (n div 10)) = n div 10" by simp
    with False show ?thesis
      by (simp add: formatDecimal.simps [of n] decimalValue_snoc digitValue_digitChar)
  qed
qed

lemma decimalValue_FormatUint_10: "decimalValue (FormatUint_10 i) = unat i"
  by (simp add: FormatUint_10_def decimalValue_formatDecimal)

lemma dumbDown_cb_eq:
  "dumbDown_cb tag col dumbCols =
     ((False, None), dumbCols @ [col\<lparr>Name := FormatUint_10 tag, Constraints := []\<rparr>])"
  by (simp add: dumbDown_cb_def)

lemma IterE_dumbDown_cb:
  "IterE cols dumbDown_cb acc =
     (None, acc @ map (\<lambda>col. col\<lparr>Name := FormatUint_10 (Tag col), Constraints := []\<rparr>) cols)"
  by (induction cols arbitrary: acc) (simp_all add: dumbDown_cb_eq)

subsection \<open>Results and the example collaborators\<close>

lemma thenR_Ok_iff: "thenR r f = Ok b \<longleftrightarrow> (\<exists>a. r = Ok a \<and> f a = Ok b)"
  by (cases r) simp_all

lemma thenR_OkE:
  assumes "thenR r f = Ok b"
  obtains a where "r = Ok a" and "f a = Ok b"
  using assms by (cases r) simp_all

lemma Tabular_neq_SQL: "TabularDiffOutput \<noteq> SQLDiffOutput"
  by (simp add: TabularDiffOutput_def SQLDiffOutput_def)

lemma formatDecimal_digit: "n < 10 \<Longrightarrow> formatDecimal n = [digitChar n]"
  by (simp add: formatDecimal.simps)

lemma FormatUint_10_small:
  "FormatUint_10 0 = ''0''" "FormatUint_10 1 = ''1''" "FormatUint_10 2 = ''2''"
  by (simp_all add: FormatUint_10_def formatDecimal_digit digitChar_def)

lemma dumbDownSchema_v1:
  "dumbDownSchema (Some sch_v1) = (Ok dumb_v1 :: (string panicValue, string, (string, unit) Schema) result)"
  by (simp add: dumbDownSchema_def GetAllCols_def sch_v1_def dumb_v1_def dumbDown_cb_def
      NewColCollection_def SchemaFromCols_def FormatUint_10_small)

lemma dumbDownSchema_v2:
  "dumbDownSchema (Some sch_v2) = (Ok dumb_v2 :: (string panicValue, string, (string, unit) Schema) result)"
  by (simp add: dumbDownSchema_def GetAllCols_def sch_v2_def dumb_v2_def dumbDown_cb_def
      NewColCollection_def SchemaFromCols_def FormatUint_10_small)

lemma union_dumb: "UntypedSchemaUnion ext_ok dumb_v2 dumb_v1 = Inr dumb_v2"
  by (simp add: ext_ok_def dumb_v1_def dumb_v2_def Tags_def)

lemma createSplitter_tabular_v:
  "createSplitter ext_ok (Some sch_v1) (Some sch_v2) joiner_v args_tabular =
     Ok (Some dumb_v2,
         NewDiffSplitter joiner_v
           (NewRowConverter (TagMapping (Some sch_v1) (Some dumb_v2)))
           (NewRowConverter (TagMapping (Some sch_v2) (Some dumb_v2))))"
  by (simp add: createSplitter_def createSplitter_unionSch_def dumbDownSchema_v1 dumbDownSchema_v2
      union_dumb toUnionConv_def args_tabular_def)
    (simp add: ext_ok_def)

lemma createSplitter_sql_v:
  "createSplitter ext_ok (Some sch_v1) (Some sch_v2) joiner_v args_sql =
     Ok (Some sch_v2,
         NewDiffSplitter joiner_v
           (NewRowConverter (TagMapping (Some sch_v1) (Some sch_v2)))
           (NewRowConverter (TagMapping (Some sch_v2) (Some sch_v2))))"
  by (simp add: createSplitter_def createSplitter_unionSch_def toUnionConv_def args_sql_def
      Tabular_neq_SQL [symmetric])
    (simp add: ext_ok_def)

subsection \<open>\<^verbatim>\<open>dumbDownSchema\<close>\<close>

text \<open>
  C6. For a schema (with unique tags, as every schema has), \<^verbatim>\<open>dumbDownSchema\<close> returns
  a schema with the same tags in the same order; each column's name is the decimal
  rendering of its tag (read back as a decimal number, the name is the tag), its
  constraints are empty, and its tag, type and primary-key membership are unchanged.
\<close>

theorem dumbDownSchema_columns:
  assumes "distinct (Tags (GetAllCols sch))"
  shows "\<exists>out. dumbDownSchema (Some sch) = Ok out \<and>
           Tags (GetAllCols out) = Tags (GetAllCols sch) \<and>
           GetAllCols out =
             map (\<lambda>col. \<lparr>Name = FormatUint_10 (Tag col), Tag = Tag col, TypeInfo = TypeInfo col,
                          IsPartOfPK = IsPartOfPK col, Constraints = []\<rparr>) (GetAllCols sch) \<and>
           (\<forall>col \<in> set (GetAllCols out). decimalValue (Name col) = unat (Tag col))"
proof -
  let ?f = "\<lambda>col :: ('a, 'b) Column. col\<lparr>Name := FormatUint_10 (Tag col), Constraints := []\<rparr>"
  have tags: "map Tag (map ?f sch) = map Tag sch" by (simp add: comp_def)
  from assms have "distinct (map Tag sch)" by (simp add: Tags_def GetAllCols_def)
  then have d: "distinct (map Tag (map ?f sch))" by (simp only: tags)
  have "dumbDownSchema (Some sch) = Ok (map ?f sch)"
    using d by (simp add: dumbDownSchema_def GetAllCols_def IterE_dumbDown_cb NewColCollection_def
        SchemaFromCols_def del: map_map)
  moreover have "?f = (\<lambda>col. \<lparr>Name = FormatUint_10 (Tag col), Tag = Tag col, TypeInfo = TypeInfo col,
                          IsPartOfPK = IsPartOfPK col, Constraints = []\<rparr>)"
    by (rule ext) simp
  ultimately show ?thesis
    by (auto simp: Tags_def GetAllCols_def decimalValue_FormatUint_10)
qed

theorem dumbDownSchema_columns_witness:
  "distinct (Tags (GetAllCols sch_v2)) \<and>
   dumbDownSchema (Some sch_v2) =
     (Ok dumb_v2 :: (string panicValue, string, (string, unit) Schema) result)"
proof -
  have d: "distinct (Tags (GetAllCols sch_v2))"
    by (simp add: Tags_def GetAllCols_def sch_v2_def)
  from dumbDownSchema_columns [OF d] dumbDownSchema_v2 d show ?thesis by simp
qed

subsection \<open>\<^verbatim>\<open>createSplitter\<close>\<close>

lemma createSplitter_Ok:
  assumes "createSplitter ext fromSch toSch joiner dArgs = Ok (unionSch, ds)"
  shows "createSplitter_unionSch ext fromSch toSch dArgs = Ok unionSch"
  using assms by (auto simp: createSplitter_def thenR_Ok_iff)

lemma createSplitter_unionSch_tabular:
  assumes "createSplitter_unionSch ext fromSch toSch dArgs = Ok unionSch"
    and "diffOutput dArgs = TabularDiffOutput"
  shows "\<exists>dumbNewSch dumbOldSch u.
           dumbDownSchema toSch = (Ok dumbNewSch :: ('e panicValue, 'e, ('v, 'ty) Schema) result) \<and>
           dumbDownSchema fromSch = (Ok dumbOldSch :: ('e panicValue, 'e, ('v, 'ty) Schema) result) \<and>
           UntypedSchemaUnion (ext :: ('v, 'ty, 'e, 'map) externals) dumbNewSch dumbOldSch = Inr u \<and>
           unionSch = Some u"
  using assms by (auto simp: createSplitter_unionSch_def split: result.splits sum.splits)

lemma createSplitter_unionSch_other:
  assumes "createSplitter_unionSch ext fromSch toSch dArgs = Ok unionSch"
    and "diffOutput dArgs \<noteq> TabularDiffOutput"
  shows "unionSch = toSch"
  using assms by (simp add: createSplitter_unionSch_def)

text \<open>
  C7. When \<^verbatim>\<open>createSplitter\<close> succeeds, its union schema is the untyped union of the
  dumbed-down to-side and from-side schemas exactly when the output mode is
  \<^verbatim>\<open>TabularDiffOutput\<close>; in every other mode, \<^verbatim>\<open>SQLDiffOutput\<close> in particular, it is the
  to-side schema itself.
\<close>

theorem createSplitter_union_schema_by_mode:
  assumes "createSplitter ext fromSch toSch joiner dArgs = Ok (unionSch, ds)"
  shows "(diffOutput dArgs = TabularDiffOutput \<longrightarrow>
            (\<exists>dumbNewSch dumbOldSch u.
               dumbDownSchema toSch = (Ok dumbNewSch :: ('e panicValue, 'e, ('v, 'ty) Schema) result) \<and>
               dumbDownSchema fromSch = (Ok dumbOldSch :: ('e panicValue, 'e, ('v, 'ty) Schema) result) \<and>
               UntypedSchemaUnion (ext :: ('v, 'ty, 'e, 'map) externals) dumbNewSch dumbOldSch = Inr u \<and>
               unionSch = Some u)) \<and>
         (diffOutput dArgs \<noteq> TabularDiffOutput \<longrightarrow> unionSch = toSch) \<and>
         (diffOutput dArgs = SQLDiffOutput \<longrightarrow> unionSch = toSch)"
  using createSplitter_unionSch_tabular [OF createSplitter_Ok [OF assms]]
    createSplitter_unionSch_other [OF createSplitter_Ok [OF assms]] Tabular_neq_SQL
  by auto

theorem createSplitter_union_schema_by_mode_witness:
  "createSplitter ext_ok (Some sch_v1) (Some sch_v2) joiner_v args_tabular =
     Ok (Some dumb_v2,
         NewDiffSplitter joiner_v
           (NewRowConverter (TagMapping (Some sch_v1) (Some dumb_v2)))
           (NewRowConverter (TagMapping (Some sch_v2) (Some dumb_v2)))) \<and>
   UntypedSchemaUnion ext_ok dumb_v2 dumb_v1 = Inr dumb_v2 \<and>
   createSplitter ext_ok (Some sch_v1) (Some sch_v2) joiner_v args_sql =
     Ok (Some sch_v2,
         NewDiffSplitter joiner_v
           (NewRowConverter (TagMapping (Some sch_v1) (Some sch_v2)))
           (NewRowConverter (TagMapping (Some sch_v2) (Some sch_v2))))"
  using createSplitter_union_schema_by_mode [OF createSplitter_tabular_v]
    createSplitter_union_schema_by_mode [OF createSplitter_sql_v]
    createSplitter_tabular_v createSplitter_sql_v union_dumb
  by simp

subsection \<open>Header rows in \<^verbatim>\<open>diffRows\<close>\<close>

lemma buildPipeline_Ok:
  assumes "buildPipeline ext dArgs joiner ds unionSch src snk = Ok p"
  shows "injected p = [] \<and> \<not> isRunning p \<and>
         (diffOutput dArgs = TabularDiffOutput \<longrightarrow>
            transforms p \<noteq> [] \<and> last (transforms p) = (fwtStageName, TransformToFWT unionSch))"
  using assms
  by (auto simp: buildPipeline_def NewAsyncPipeline_def Let_def split: sum.splits)

lemma headerRow_Ok:
  "headerRow ext toRows unionSch names = Ok r \<longleftrightarrow>
     NewRowFromTaggedStrings ext toRows unionSch names = Inr r"
  by (simp add: headerRow_def split: sum.splits)

lemma injectHeaders_Ok:
  assumes "injectHeaders ext dArgs toRows unionSch oldColNames newColNames p = Ok p'"
  shows "isRunning p' = isRunning p \<and> transforms p' = transforms p \<and>
         (diffOutput dArgs = SQLDiffOutput \<longrightarrow> injected p' = injected p) \<and>
         (diffOutput dArgs \<noteq> SQLDiffOutput \<and> oldColNames = newColNames \<longrightarrow>
            (\<exists>schRow. NewRowFromTaggedStrings ext toRows unionSch newColNames = Inr schRow \<and>
               injected p' = injected p @ [(fwtStageName, schRow, [])])) \<and>
         (diffOutput dArgs \<noteq> SQLDiffOutput \<and> oldColNames \<noteq> newColNames \<longrightarrow>
            (\<exists>oldRow newRow.
               NewRowFromTaggedStrings ext toRows unionSch oldColNames = Inr oldRow \<and>
               NewRowFromTaggedStrings ext toRows unionSch newColNames = Inr newRow \<and>
               injected p' = injected p @
                 [(fwtStageName, oldRow, [(DiffTypeProp, DiffModifiedOld)]),
                  (fwtStageName, newRow, [(DiffTypeProp, DiffModifiedNew)])]))"
proof (cases "diffOutput dArgs = SQLDiffOutput")
  case True
  with assms show ?thesis by (simp add: injectHeaders_def)
next
  case nsql: False
  show ?thesis
  proof (cases "oldColNames = newColNames")
    case True
    with nsql assms show ?thesis
      by (auto simp: injectHeaders_def thenR_Ok_iff headerRow_Ok InjectRow_def InjectRowWithProps_def)
  next
    case False
    with nsql assms show ?thesis
      by (auto simp: injectHeaders_def thenR_Ok_iff headerRow_Ok InjectRowWithProps_def Let_def)
  qed
qed

lemma diffRows_setup_Ok:
  assumes "diffRows_setup (ext :: ('v, 'ty, 'e, 'map) externals) fromRows toRows fromSch toSch dArgs tblName = Ok p"
  shows "\<exists>unionSch ds oldColNames newColNames src snk p0.
           createSplitter ext fromSch toSch
             (NewJoiner [(diff_From, fromSch), (diff_To, toSch)]
                [(diff_To, toNamer), (diff_From, fromNamer)]) dArgs = Ok (unionSch, ds) \<and>
           mapTagToColName fromSch unionSch = (Ok oldColNames :: ('e panicValue, 'e VerboseError, uint64 \<Rightarrow> string option) result) \<and>
           mapTagToColName toSch unionSch = (Ok newColNames :: ('e panicValue, 'e VerboseError, uint64 \<Rightarrow> string option) result) \<and>
           buildPipeline ext dArgs
             (NewJoiner [(diff_From, fromSch), (diff_To, toSch)]
                [(diff_To, toNamer), (diff_From, fromNamer)]) ds unionSch src snk = Ok p0 \<and>
           injectHeaders ext dArgs toRows unionSch oldColNames newColNames p0 = Ok p"
proof -
  let ?j = "NewJoiner [(diff_From, fromSch), (diff_To, toSch)]
              [(diff_To, toNamer), (diff_From, fromNamer)]"
  let ?src = "NewRowDiffSource 1024 fromRows toRows ?j"
  from assms have
    a1: "thenR (createSplitter ext fromSch toSch ?j dArgs) (\<lambda>(unionSch, ds).
           thenR (mapTagToColName fromSch unionSch) (\<lambda>oldColNames.
           thenR (mapTagToColName toSch unionSch) (\<lambda>newColNames.
           thenR (newSink ext dArgs unionSch (if oldColNames \<noteq> newColNames then 2 else 1) tblName)
             (\<lambda>snk.
           thenR (buildPipeline ext dArgs ?j ds unionSch ?src snk) (\<lambda>p.
           injectHeaders ext dArgs toRows unionSch oldColNames newColNames p))))) = Ok p"
    by (simp add: diffRows_setup_def Let_def split: option.splits)
  then obtain us where cs: "createSplitter ext fromSch toSch ?j dArgs = Ok us"
    and a2: "(case us of (unionSch, ds) \<Rightarrow>
           thenR (mapTagToColName fromSch unionSch) (\<lambda>oldColNames.
           thenR (mapTagToColName toSch unionSch) (\<lambda>newColNames.
           thenR (newSink ext dArgs unionSch (if oldColNames \<noteq> newColNames then 2 else 1) tblName)
             (\<lambda>snk.
           thenR (buildPipeline ext dArgs ?j ds unionSch ?src snk) (\<lambda>p.
           injectHeaders ext dArgs toRows unionSch oldColNames newColNames p))))) = Ok p"
    by (rule thenR_OkE)
  obtain unionSch ds where us: "us = (unionSch, ds)" by (cases us)
  from a2 us have
    a2': "thenR (mapTagToColName fromSch unionSch) (\<lambda>oldColNames.
           thenR (mapTagToColName toSch unionSch) (\<lambda>newColNames.
           thenR (newSink ext dArgs unionSch (if oldColNames \<noteq> newColNames then 2 else 1) tblName)
             (\<lambda>snk.
           thenR (buildPipeline ext dArgs ?j ds unionSch ?src snk) (\<lambda>p.
           injectHeaders ext dArgs toRows unionSch oldColNames newColNames p)))) = Ok p"
    by simp
  then obtain oldColNames where o: "mapTagToColName fromSch unionSch = (Ok oldColNames :: ('e panicValue, 'e VerboseError, uint64 \<Rightarrow> string option) result)"
    and a3: "thenR (mapTagToColName toSch unionSch) (\<lambda>newColNames.
           thenR (newSink ext dArgs unionSch (if oldColNames \<noteq> newColNames then 2 else 1) tblName)
             (\<lambda>snk.
           thenR (buildPipeline ext dArgs ?j ds unionSch ?src snk) (\<lambda>p.
           injectHeaders ext dArgs toRows unionSch oldColNames newColNames p))) = Ok p"
    by (rule thenR_OkE)
  from a3 obtain newColNames where n: "mapTagToColName toSch unionSch = (Ok newColNames :: ('e panicValue, 'e VerboseError, uint64 \<Rightarrow> string option) result)"
    and a4: "thenR (newSink ext dArgs unionSch (if oldColNames \<noteq> newColNames then 2 else 1) tblName)
             (\<lambda>snk.
           thenR (buildPipeline ext dArgs ?j ds unionSch ?src snk) (\<lambda>p.
           injectHeaders ext dArgs toRows unionSch oldColNames newColNames p)) = Ok p"
    by (rule thenR_OkE)
  from a4 obtain snk where
    a5: "thenR (buildPipeline ext dArgs ?j ds unionSch ?src snk) (\<lambda>p.
           injectHeaders ext dArgs toRows unionSch oldColNames newColNames p) = Ok p"
    by (rule thenR_OkE)
  from a5 obtain p0 where bp: "buildPipeline ext dArgs ?j ds unionSch ?src snk = Ok p0"
    and ih: "injectHeaders ext dArgs toRows unionSch oldColNames newColNames p0 = Ok p"
    by (rule thenR_OkE)
  from cs us o n bp ih show ?thesis by blast
qed

lemma Start_fields: "injected (Start p) = injected p" "transforms (Start p) = transforms p"
  by (simp_all add: Start_def)

text \<open>
  C8. When \<^verbatim>\<open>diffRows\<close> gets as far as starting its pipeline, the rows injected before
  the start are: none for SQL output; for tabular output, at the fixed-width stage (the
  last stage of the pipeline), one header row when the old and new maps from tag to
  column name are equal, and otherwise two, the first made from the old-side names with
  property \<^verbatim>\<open>DiffModifiedOld\<close> and the second from the new-side names with
  \<^verbatim>\<open>DiffModifiedNew\<close>.
\<close>

theorem diffRows_header_rows:
  assumes ran: "diffRows (ext :: ('v, 'ty, 'e, 'map) externals) fromRows toRows fromSch toSch dArgs tblName = (res, Some p)"
    and cs: "createSplitter ext fromSch toSch
               (NewJoiner [(diff_From, fromSch), (diff_To, toSch)]
                  [(diff_To, toNamer), (diff_From, fromNamer)]) dArgs = Ok (unionSch, ds)"
    and oldN: "mapTagToColName fromSch unionSch = (Ok oldColNames :: ('e panicValue, 'e VerboseError, uint64 \<Rightarrow> string option) result)"
    and newN: "mapTagToColName toSch unionSch = (Ok newColNames :: ('e panicValue, 'e VerboseError, uint64 \<Rightarrow> string option) result)"
  shows "(diffOutput dArgs = SQLDiffOutput \<longrightarrow> injected p = []) \<and>
         (diffOutput dArgs = TabularDiffOutput \<longrightarrow>
            last (transforms p) = (fwtStageName, TransformToFWT unionSch) \<and>
            (oldColNames = newColNames \<longrightarrow>
               (\<exists>schRow.
                  NewRowFromTaggedStrings ext toRows unionSch newColNames = Inr schRow \<and>
                  injected p = [(fwtStageName, schRow, [])])) \<and>
            (oldColNames \<noteq> newColNames \<longrightarrow>
               (\<exists>oldRow newRow.
                  NewRowFromTaggedStrings ext toRows unionSch oldColNames = Inr oldRow \<and>
                  NewRowFromTaggedStrings ext toRows unionSch newColNames = Inr newRow \<and>
                  injected p =
                    [(fwtStageName, oldRow, [(DiffTypeProp, DiffModifiedOld)]),
                     (fwtStageName, newRow, [(DiffTypeProp, DiffModifiedNew)])]))) \<and>
         (\<exists>p0. diffRows_setup ext fromRows toRows fromSch toSch dArgs tblName = Ok p0 \<and>
               \<not> isRunning p0 \<and> injected p0 = injected p \<and> p = Start p0)"
proof -
  from ran obtain p0 where
    stp: "diffRows_setup ext fromRows toRows fromSch toSch dArgs tblName = Ok p0"
    and p: "p = Start p0"
    by (auto simp: diffRows_def Let_def split: result.splits option.splits)
  from diffRows_setup_Ok [OF stp] obtain unionSch' ds' oldColNames' newColNames' src snk pb where
    cs': "createSplitter ext fromSch toSch
             (NewJoiner [(diff_From, fromSch), (diff_To, toSch)]
                [(diff_To, toNamer), (diff_From, fromNamer)]) dArgs = Ok (unionSch', ds')"
    and oldN': "mapTagToColName fromSch unionSch' = (Ok oldColNames' :: ('e panicValue, 'e VerboseError, uint64 \<Rightarrow> string option) result)"
    and newN': "mapTagToColName toSch unionSch' = (Ok newColNames' :: ('e panicValue, 'e VerboseError, uint64 \<Rightarrow> string option) result)"
    and bp': "buildPipeline ext dArgs
             (NewJoiner [(diff_From, fromSch), (diff_To, toSch)]
                [(diff_To, toNamer), (diff_From, fromNamer)]) ds' unionSch' src snk = Ok pb"
    and ih': "injectHeaders ext dArgs toRows unionSch' oldColNames' newColNames' pb = Ok p0"
    by blast
  from cs cs' have u: "unionSch' = unionSch" "ds' = ds" by simp_all
  from oldN oldN' u have o: "oldColNames' = oldColNames" by simp
  from newN newN' u have n: "newColNames' = newColNames" by simp
  note b = buildPipeline_Ok [OF bp' [unfolded u]]
  note i = injectHeaders_Ok [OF ih' [unfolded u o n]]
  have run: "\<not> isRunning p0" using b i by simp
  have sql: "diffOutput dArgs = SQLDiffOutput \<longrightarrow> injected p = []"
    using b i p by (simp add: Start_fields)
  have tab: "diffOutput dArgs = TabularDiffOutput \<longrightarrow>
            last (transforms p) = (fwtStageName, TransformToFWT unionSch) \<and>
            (oldColNames = newColNames \<longrightarrow>
               (\<exists>schRow.
                  NewRowFromTaggedStrings ext toRows unionSch newColNames = Inr schRow \<and>
                  injected p = [(fwtStageName, schRow, [])])) \<and>
            (oldColNames \<noteq> newColNames \<longrightarrow>
               (\<exists>oldRow newRow.
                  NewRowFromTaggedStrings ext toRows unionSch oldColNames = Inr oldRow \<and>
                  NewRowFromTaggedStrings ext toRows unionSch newColNames = Inr newRow \<and>
                  injected p =
                    [(fwtStageName, oldRow, [(DiffTypeProp, DiffModifiedOld)]),
                     (fwtStageName, newRow, [(DiffTypeProp, DiffModifiedNew)])]))"
    using b i Tabular_neq_SQL unfolding p Start_fields by auto
  have "\<exists>p0. diffRows_setup ext fromRows toRows fromSch toSch dArgs tblName = Ok p0 \<and>
               \<not> isRunning p0 \<and> injected p0 = injected p \<and> p = Start p0"
    using stp run p by (auto simp: Start_fields)
  with sql tab show ?thesis by (intro conjI)
qed

lemma mapTagToColName_cb_eq:
  "mapTagToColName_cb allCols tag col0 m =
     ((False, None), m(tag \<mapsto> (case GetByTag allCols tag of Some col \<Rightarrow> Name col | None \<Rightarrow> [])))"
  by (simp add: mapTagToColName_cb_def split: option.splits)

lemma IterE_mapTagToColName_cb:
  "IterE cols (mapTagToColName_cb allCols) m =
     (None, fold (\<lambda>col m. m(Tag col \<mapsto> (case GetByTag allCols (Tag col) of
                                             Some c \<Rightarrow> Name c | None \<Rightarrow> []))) cols m)"
  by (induction cols arbitrary: m) (simp_all add: mapTagToColName_cb_eq)

lemma mapTagToColName_Some:
  "mapTagToColName (Some s) (Some u) =
     Ok (fold (\<lambda>col m. m(Tag col \<mapsto> (case GetByTag (GetAllCols s) (Tag col) of
                                             Some c \<Rightarrow> Name c | None \<Rightarrow> []))) (GetAllCols u) Map.empty)"
  by (simp add: mapTagToColName_def IterE_mapTagToColName_cb)

lemma names_v1_dumb:
  "mapTagToColName (Some sch_v1) (Some dumb_v2) = Ok names_v1"
  by (simp add: mapTagToColName_Some GetAllCols_def GetByTag_def sch_v1_def dumb_v2_def names_v1_def)

lemma names_v2_dumb:
  "mapTagToColName (Some sch_v2) (Some dumb_v2) = Ok names_v2"
  by (simp add: mapTagToColName_Some GetAllCols_def GetByTag_def sch_v2_def dumb_v2_def names_v2_def)

lemma names_v1_neq_v2: "names_v1 \<noteq> names_v2"
proof
  assume "names_v1 = names_v2"
  then have "names_v1 1 = names_v2 1" by simp
  then show False by (simp add: names_v1_def names_v2_def)
qed

lemma diffRows_tabular_v:
  "\<exists>p. diffRows ext_ok () () (Some sch_v1) (Some sch_v2) args_tabular ''people'' = (Ok (), Some p)"
proof -
  have "\<exists>p0. diffRows_setup ext_ok () () (Some sch_v1) (Some sch_v2) args_tabular ''people'' = Ok p0"
    using createSplitter_tabular_v names_v1_neq_v2
    by (simp add: diffRows_setup_def joiner_v_def names_v1_dumb names_v2_dumb newSink_def
        buildPipeline_def injectHeaders_def headerRow_def ext_ok_def args_tabular_def
        Tabular_neq_SQL Let_def)
  then show ?thesis by (auto simp: diffRows_def Let_def ext_ok_def)
qed

theorem diffRows_header_rows_witness:
  "map_option injected
     (snd (diffRows ext_ok () () (Some sch_v1) (Some sch_v2) args_tabular ''people'')) =
   Some [(fwtStageName, names_v1, [(DiffTypeProp, DiffModifiedOld)]),
         (fwtStageName, names_v2, [(DiffTypeProp, DiffModifiedNew)])]"
proof -
  from diffRows_tabular_v obtain p where
    ran: "diffRows ext_ok () () (Some sch_v1) (Some sch_v2) args_tabular ''people'' = (Ok (), Some p)"
    by blast
  have nr: "\<And>names. NewRowFromTaggedStrings ext_ok () (Some dumb_v2) names = Inr names"
    by (simp add: ext_ok_def)
  have tab: "diffOutput args_tabular = TabularDiffOutput" by (simp add: args_tabular_def)
  from diffRows_header_rows [OF ran createSplitter_tabular_v [unfolded joiner_v_def]
      names_v1_dumb names_v2_dumb]
  have "injected p =
          [(fwtStageName, names_v1, [(DiffTypeProp, DiffModifiedOld)]),
           (fwtStageName, names_v2, [(DiffTypeProp, DiffModifiedNew)])]"
    using names_v1_neq_v2 tab by (simp add: nr)
  with ran show ?thesis by simp
qed

subsection \<open>Panics of \<^verbatim>\<open>diffRows\<close>\<close>

text \<open>The only panic on the paths of \<^verbatim>\<open>diffRows\<close> modelled here is a \<^verbatim>\<open>nil\<close> schema.\<close>

lemma panicsOnlyNil_simps [simp]:
  "panicsOnlyNil (Panic pv) = (pv = NilDereference)"
  "panicsOnlyNil (Error x) = True"
  "panicsOnlyNil (Ok a) = True"
  by (simp_all add: panicsOnlyNil_def)

lemma panicsOnlyNil_thenR:
  assumes "panicsOnlyNil r" and "\<And>a. r = Ok a \<Longrightarrow> panicsOnlyNil (f a)"
  shows "panicsOnlyNil (thenR r f)"
  using assms by (cases r) simp_all

lemma panicsOnlyNil_dumbDownSchema: "panicsOnlyNil (dumbDownSchema sch)"
  by (simp add: dumbDownSchema_def Let_def split: option.splits prod.splits sum.splits)

lemma panicsOnlyNil_createSplitter_unionSch:
  "panicsOnlyNil (createSplitter_unionSch (ext :: ('v, 'ty, 'e, 'map) externals) fromSch toSch dArgs)"
proof -
  have a: "panicsOnlyNil (dumbDownSchema toSch :: ('e panicValue, 'e, ('v, 'ty) Schema) result)"
    and b: "panicsOnlyNil (dumbDownSchema fromSch :: ('e panicValue, 'e, ('v, 'ty) Schema) result)"
    by (rule panicsOnlyNil_dumbDownSchema)+
  show ?thesis
    using a b by (auto simp: createSplitter_unionSch_def split: result.splits sum.splits)
qed

lemma panicsOnlyNil_toUnionConv: "panicsOnlyNil (toUnionConv ext sch unionSch)"
  by (simp add: toUnionConv_def split: option.splits)

lemma panicsOnlyNil_createSplitter:
  "panicsOnlyNil (createSplitter ext fromSch toSch joiner dArgs)"
  unfolding createSplitter_def
  by (intro panicsOnlyNil_thenR panicsOnlyNil_createSplitter_unionSch panicsOnlyNil_toUnionConv)
    simp

lemma panicsOnlyNil_mapTagToColName: "panicsOnlyNil (mapTagToColName sch unionSch)"
  by (simp add: mapTagToColName_def Let_def split: option.splits prod.splits)

lemma panicsOnlyNil_newSink: "panicsOnlyNil (newSink ext dArgs unionSch n tblName)"
  by (simp add: newSink_def split: option.splits)

lemma panicsOnlyNil_buildPipeline:
  "panicsOnlyNil (buildPipeline ext dArgs joiner ds unionSch src snk)"
  by (simp add: buildPipeline_def Let_def split: sum.splits)

lemma panicsOnlyNil_headerRow: "panicsOnlyNil (headerRow ext toRows unionSch names)"
  by (simp add: headerRow_def split: sum.splits)

lemma panicsOnlyNil_injectHeaders:
  "panicsOnlyNil (injectHeaders ext dArgs toRows unionSch oldColNames newColNames p)"
  unfolding injectHeaders_def Let_def
  by (auto intro!: panicsOnlyNil_thenR panicsOnlyNil_headerRow)

lemma panicsOnlyNil_diffRows_setup:
  "panicsOnlyNil (diffRows_setup ext fromRows toRows fromSch toSch dArgs tblName)"
  unfolding diffRows_setup_def Let_def
  by (auto split: option.splits
      intro!: panicsOnlyNil_thenR panicsOnlyNil_createSplitter panicsOnlyNil_mapTagToColName
        panicsOnlyNil_newSink panicsOnlyNil_buildPipeline panicsOnlyNil_injectHeaders)

lemma diffRows_panic:
  "fst (diffRows ext fromRows toRows fromSch toSch dArgs tblName) = Panic pv \<Longrightarrow> pv = NilDereference"
  using panicsOnlyNil_diffRows_setup [of ext fromRows toRows fromSch toSch dArgs tblName]
  by (auto simp: diffRows_def Let_def split: result.splits option.splits)

subsection \<open>\<^verbatim>\<open>diffRoots\<close> and the panic of \<^verbatim>\<open>diffSchemas\<close>\<close>

lemma diffSchemasCalls_append:
  "diffSchemasCalls (a @ b) = diffSchemasCalls a @ diffSchemasCalls b"
  by (induction a rule: diffSchemasCalls.induct) simp_all

lemma tabularCallsOnModified_append:
  "tabularCallsOnModified dArgs (a @ b) \<longleftrightarrow>
     tabularCallsOnModified dArgs a \<and> tabularCallsOnModified dArgs b"
  by (auto simp: tabularCallsOnModified_def diffSchemasCalls_append)

lemma tabularCallsOnModified_tableSet:
  "tabularCallsOnModified (dArgs\<lparr>tableSet := ts\<rparr>) tr = tabularCallsOnModified dArgs tr"
  by (simp add: tabularCallsOnModified_def)

lemma printTableDiffSummary_calls:
  "diffSchemasCalls (snd (printTableDiffSummary rx tblName fromTable toTable)) = []"
  by (simp add: printTableDiffSummary_def split: option.splits sum.splits)

lemma printTableDiffSummary_panic:
  "fst (printTableDiffSummary rx tblName fromTable toTable) = Some pv \<Longrightarrow> \<exists>err. pv = PanicErr err"
  by (auto simp: printTableDiffSummary_def split: option.splits sum.splits if_splits)

lemma diffSchemas_calls: "diffSchemasCalls (snd (diffSchemas rx td dArgs)) = [td]"
  by (simp add: diffSchemas_def sqlSchemaDiff_def split: sum.splits prod.splits)

lemma diffSchemas_panic:
  assumes "fst (diffSchemas rx td dArgs) = Panic pv"
  shows "diffOutput dArgs = TabularDiffOutput \<and> (IsDrop td \<or> IsAdd td)"
  using assms
  by (auto simp: diffSchemas_def sqlSchemaDiff_def split: sum.splits prod.splits if_splits)

lemma flowAll_andThen:
  assumes "flowAll N' C R f" and "\<And>s. N' s \<Longrightarrow> flowAll N C R (g s)"
  shows "flowAll N C R (andThen f g)"
  using assms by (cases f) (simp_all add: flowAll_def)

lemma summaryPart_ok:
  assumes "tabularCallsOnModified dArgs (snd st)"
  shows "flowAll (\<lambda>s. tabularCallsOnModified dArgs (snd s))
           (\<lambda>s. tabularCallsOnModified dArgs (snd s))
           (\<lambda>r. tabularCallsOnModified dArgs (snd r) \<and> fst r \<noteq> Panic (PanicMsg tabularSchemaDiffPanic))
           (summaryPart rx dArgs fromSch fromMap toMap st)"
  using assms
  by (auto simp: summaryPart_def flowAll_def Let_def diffSchemasCalls_append
      tabularCallsOnModified_def split: prod.splits option.splits)

lemma schemaPart_ok:
  assumes "tabularCallsOnModified dArgs (snd st)"
    and "diffOutput dArgs = TabularDiffOutput \<longrightarrow> \<not> IsAdd td \<and> \<not> IsDrop td"
  shows "flowAll (\<lambda>s. tabularCallsOnModified dArgs (snd s))
           (\<lambda>s. tabularCallsOnModified dArgs (snd s))
           (\<lambda>r. tabularCallsOnModified dArgs (snd r) \<and> fst r \<noteq> Panic (PanicMsg tabularSchemaDiffPanic))
           (schemaPart rx dArgs td st)"
proof -
  obtain res evs where d: "diffSchemas rx td dArgs = (res, evs)" by (cases "diffSchemas rx td dArgs")
  from diffSchemas_calls [of rx td dArgs] d have c: "diffSchemasCalls evs = [td]" by simp
  with assms(2) have e: "tabularCallsOnModified dArgs evs" by (simp add: tabularCallsOnModified_def)
  have np: "\<And>pv. res \<noteq> Panic pv"
    using diffSchemas_panic [of rx td dArgs] d assms(2) by auto
  obtain verr tr where st: "st = (verr, tr)" by (cases st)
  show ?thesis
    using assms(1) d e np st
    by (cases res) (auto simp: schemaPart_def flowAll_def tabularCallsOnModified_append)
qed

lemma dataPart_ok:
  assumes "tabularCallsOnModified dArgs (snd st)"
  shows "flowAll (\<lambda>s. tabularCallsOnModified dArgs (snd s))
           (\<lambda>s. tabularCallsOnModified dArgs (snd s))
           (\<lambda>r. tabularCallsOnModified dArgs (snd r) \<and> fst r \<noteq> Panic (PanicMsg tabularSchemaDiffPanic))
           (dataPart ext dArgs td tblName fromSch toSch fromMap toMap st)"
proof -
  let ?fromSch = "if IsAdd td then toSch else fromSch"
  obtain res p where d: "diffRows ext fromMap toMap ?fromSch toSch dArgs tblName = (res, p)"
    by (cases "diffRows ext fromMap toMap ?fromSch toSch dArgs tblName")
  have np: "res \<noteq> Panic (PanicMsg tabularSchemaDiffPanic)"
    using diffRows_panic [of ext fromMap toMap ?fromSch toSch dArgs tblName] d by auto
  have e: "tabularCallsOnModified dArgs [RanDiffRows tblName p]"
    by (simp add: tabularCallsOnModified_def)
  obtain verr tr where st: "st = (verr, tr)" by (cases st)
  show ?thesis
    using assms d e np st
    by (cases res) (auto simp: dataPart_def flowAll_def Let_def tabularCallsOnModified_append)
qed

lemma diffRoots_body_ok:
  assumes "tabularCallsOnModified dArgs (snd st)"
  shows "flowAll (\<lambda>s. tabularCallsOnModified dArgs (snd s))
           (\<lambda>s. tabularCallsOnModified dArgs (snd s))
           (\<lambda>r. tabularCallsOnModified dArgs (snd r) \<and> fst r \<noteq> Panic (PanicMsg tabularSchemaDiffPanic))
           (diffRoots_body ext rx dArgs td st)"
  unfolding diffRoots_body_def Let_def
  apply (rule flowAll_andThen [where N' = "\<lambda>s. tabularCallsOnModified dArgs (snd s)"])
  subgoal using assms by (simp add: flowAll_def)
  apply (rule flowAll_andThen [where N' = "\<lambda>s. tabularCallsOnModified dArgs (snd s)"])
  subgoal by (simp add: flowAll_def)
  apply (rule flowAll_andThen [where N' = "\<lambda>s. tabularCallsOnModified dArgs (snd s) \<and>
           (diffOutput dArgs = TabularDiffOutput \<longrightarrow> \<not> IsAdd td \<and> \<not> IsDrop td)"])
  subgoal for s1 s2
    using printTableDiffSummary_calls [of rx "ToName td" "FromTable td" "ToTable td"]
      printTableDiffSummary_panic [of rx "ToName td" "FromTable td" "ToTable td"]
    by (cases "printTableDiffSummary rx (ToName td) (FromTable td) (ToTable td)")
      (auto simp: flowAll_def diffSchemasCalls_append tabularCallsOnModified_def
        split: option.splits)
  apply (rule flowAll_andThen [where N' = "\<lambda>s. tabularCallsOnModified dArgs (snd s) \<and>
           (diffOutput dArgs = TabularDiffOutput \<longrightarrow> \<not> IsAdd td \<and> \<not> IsDrop td)"])
  subgoal by (simp add: flowAll_def)
  subgoal for s1 s2 s3 s4
    apply (cases "GetSchemas rx td")
    subgoal by (simp add: flowAll_def)
    subgoal for schs
      apply (cases schs)
      apply (cases "GetMaps rx td")
      subgoal by (simp add: flowAll_def)
      subgoal for fromSch toSch maps
        apply (cases maps)
        apply simp
        apply (rule flowAll_andThen [where N' = "\<lambda>s. tabularCallsOnModified dArgs (snd s)"])
        subgoal by (rule summaryPart_ok) simp
        apply (rule flowAll_andThen [where N' = "\<lambda>s. tabularCallsOnModified dArgs (snd s)"])
        subgoal by (rule schemaPart_ok) simp_all
        apply (rule flowAll_andThen [where N' = "\<lambda>s. tabularCallsOnModified dArgs (snd s)"])
        subgoal by (rule dataPart_ok) simp
        subgoal by (simp add: flowAll_def split: option.splits)
        done
      done
    done
  done

lemma diffRoots_loop_ok:
  assumes "tabularCallsOnModified dArgs (snd st)"
  shows "tabularCallsOnModified dArgs (snd (diffRoots_loop ext rx dArgs tds st)) \<and>
         fst (diffRoots_loop ext rx dArgs tds st) \<noteq> Panic (PanicMsg tabularSchemaDiffPanic)"
  using assms
proof (induction tds arbitrary: st)
  case Nil
  then show ?case by simp
next
  case (Cons td tds)
  from diffRoots_body_ok [OF Cons.prems, of ext rx td]
  show ?case
    by (cases "diffRoots_body ext rx dArgs td st") (simp_all add: flowAll_def Cons.IH)
qed

text \<open>
  C10. \<^verbatim>\<open>diffRoots\<close> never ends in the panic of \<^verbatim>\<open>diffSchemas\<close> (\<^verbatim>\<open>cannot perform tabular
  schema diff for added/dropped tables\<close>): with \<^verbatim>\<open>TabularDiffOutput\<close>, every table delta
  for which \<^verbatim>\<open>diffSchemas\<close> is called is neither an added nor a dropped table, since those
  are skipped before.
\<close>

theorem diffSchemas_panic_unreachable:
  "fst (diffRoots ext rx dArgs) \<noteq> Panic (PanicMsg tabularSchemaDiffPanic) \<and>
   (diffOutput dArgs = TabularDiffOutput \<longrightarrow>
      (\<forall>td \<in> set (diffSchemasCalls (snd (diffRoots ext rx dArgs))). \<not> IsAdd td \<and> \<not> IsDrop td))"
proof -
  have e: "tabularCallsOnModified dArgs (snd (None, []))"
    by (simp add: tabularCallsOnModified_def)
  have "tabularCallsOnModified dArgs (snd (diffRoots ext rx dArgs)) \<and>
        fst (diffRoots ext rx dArgs) \<noteq> Panic (PanicMsg tabularSchemaDiffPanic)"
  proof (cases "GetTableDeltas rx")
    case (Inl err)
    then show ?thesis by (simp add: diffRoots_def tabularCallsOnModified_def)
  next
    case (Inr tds)
    show ?thesis
    proof (cases "tableSet dArgs = []")
      case False
      with Inr diffRoots_loop_ok [OF e, of ext rx tds] show ?thesis by (simp add: diffRoots_def)
    next
      case True
      show ?thesis
      proof (cases "UnionTableNames rx")
        case (Inl err)
        with Inr True show ?thesis by (simp add: diffRoots_def tabularCallsOnModified_def)
      next
        case (Inr utn)
        have e': "tabularCallsOnModified (dArgs\<lparr>tableSet := tableSet dArgs @ utn\<rparr>) (snd (None, []))"
          by (simp add: tabularCallsOnModified_def)
        from diffRoots_loop_ok [OF e', of ext rx tds] Inr True \<open>GetTableDeltas rx = Inr tds\<close>
        show ?thesis by (simp add: diffRoots_def tabularCallsOnModified_tableSet)
      qed
    qed
  qed
  then show ?thesis by (simp add: tabularCallsOnModified_def)
qed

lemma diffRoots_three:
  "diffRoots ext_ok rx_three args_tabular_schema =
     (Ok (),
      [PrintedTableHeader ''new_t'', PrintedAddedTable,
       PrintedTableHeader ''old_t'', PrintedDeletedTable,
       PrintedTableHeader ''people'', PrintedFromHash ''people'' ''h'', PrintedToHash ''people'' ''h'',
       CalledDiffSchemas td_people,
       PrintedTabularSchemaDiff ''people'' (Some sch_v1) (Some sch_v2)])"
  by (simp add: diffRoots_def rx_three_def args_tabular_schema_def diffRoots_body_def Contains_def
      td_added_def td_dropped_def td_people_def printTableDiffSummary_def IsAdd_def IsDrop_def
      summaryPart_def schemaPart_def dataPart_def diffSchemas_def
      SchemaOnlyDiff_def DataOnlyDiff_def Summary_def Let_def)

theorem diffSchemas_panic_unreachable_witness:
  "diffOutput args_tabular_schema = TabularDiffOutput \<and>
   fst (diffRoots ext_ok rx_three args_tabular_schema) = Ok () \<and>
   diffSchemasCalls (snd (diffRoots ext_ok rx_three args_tabular_schema)) = [td_people] \<and>
   \<not> IsAdd td_people \<and> \<not> IsDrop td_people \<and> IsAdd td_added \<and> IsDrop td_dropped"
proof -
  have t: "diffOutput args_tabular_schema = TabularDiffOutput"
    by (simp add: args_tabular_schema_def)
  show ?thesis
    using t diffSchemas_panic_unreachable [of ext_ok rx_three args_tabular_schema]
    by (simp add: diffRoots_three IsAdd_def IsDrop_def td_people_def td_added_def td_dropped_def)
qed

end
